theory Spec2Isabelle
  imports Complex_Main "HOL-Library.Sublist" "HOL-Library.Monad_Syntax"
begin

section \<open>Characters and string helpers\<close>

text \<open>
  The C++ sources classify bytes with \<open>std::isdigit\<close>, \<open>std::isalpha\<close> and
  \<open>std::isalnum\<close>. The program never installs a locale, so the classification is the one
  of the default "C" locale: the ASCII digits and letters and nothing else.
\<close>

definition isdigit :: "char \<Rightarrow> bool" where
  "isdigit c = (48 \<le> (of_char c :: nat) \<and> (of_char c :: nat) \<le> 57)"

definition isalpha :: "char \<Rightarrow> bool" where
  "isalpha c = ((65 \<le> (of_char c :: nat) \<and> (of_char c :: nat) \<le> 90) \<or>
                (97 \<le> (of_char c :: nat) \<and> (of_char c :: nat) \<le> 122))"

definition isalnum :: "char \<Rightarrow> bool" where
  "isalnum c = (isalpha c \<or> isdigit c)"

text \<open>The two bytes that cannot be written inside an Isabelle string literal.\<close>

definition dquote :: string where
  "dquote = [CHR 0x22]"

definition newline :: string where
  "newline = [CHR 0x0A]"

text \<open>\<open>std::string::starts_with\<close> and \<open>ends_with\<close>.\<close>

definition starts_with :: "string \<Rightarrow> string \<Rightarrow> bool" where
  "starts_with s p = (take (length p) s = p)"

definition ends_with :: "string \<Rightarrow> string \<Rightarrow> bool" where
  "ends_with s p = (length p \<le> length s \<and> drop (length s - length p) s = p)"

section \<open>Parser: tokens and panic-mode recovery (token.hpp, parser_tokens.cpp, parser_errors.cpp)\<close>

datatype TokenType =
  Identifier | String | Number | Variable | GeneratorExpr
  | LeftParen | RightParen | LeftBracket | RightBracket | Semicolon
  | Comment | BracketComment | Newline | Whitespace | Eof | Invalid

datatype TokenValue = NoValue | StringValue string | NumberValue real | CharValue char

text \<open>A token: its type, its value and its text (the source location is left out).\<close>

record Token =
  token_type :: TokenType
  token_value :: TokenValue
  raw_text :: string

definition eof_token :: Token where
  "eof_token = \<lparr>token_type = Eof, token_value = NoValue, raw_text = []\<rparr>"

text \<open>
  The parser reads tokens from the lexer into \<open>token_buffer_\<close> as it needs them, and a
  lexer error enters the buffer as an \<open>Invalid\<close> token. Here \<open>token_buffer\<close> is the
  whole sequence the lexer yields; at the end of the input the lexer answers \<open>Eof\<close> to
  every further call, which is what a read past the sequence gives. \<open>parser.cpp\<close> defines
  the same member functions a second time, with another stop set in \<open>synchronize\<close>; the
  definitions followed here are those of \<open>parser_tokens.cpp\<close> and \<open>parser_errors.cpp\<close>.
\<close>

record Parser =
  token_buffer :: "Token list"
  current_index :: nat
  panic_mode :: bool

definition token_at :: "Parser \<Rightarrow> nat \<Rightarrow> Token" where
  "token_at p i = (if i < length (token_buffer p) then token_buffer p ! i else eof_token)"

definition current :: "Parser \<Rightarrow> Token" where
  "current p = token_at p (current_index p)"

definition check :: "TokenType \<Rightarrow> Parser \<Rightarrow> bool" where
  "check ty p = (token_type (current p) = ty)"

definition advance :: "Parser \<Rightarrow> Parser" where
  "advance p = (if \<not> check Eof p then p\<lparr>current_index := current_index p + 1\<rparr> else p)"

text \<open>The names that \<open>synchronize\<close> compares the current identifier with, each by
  \<open>==\<close>.\<close>

definition is_statement_start :: "string \<Rightarrow> bool" where
  "is_statement_start nm =
     (nm = ''if'' \<or> nm = ''foreach'' \<or> nm = ''while'' \<or> nm = ''function'' \<or> nm = ''macro''
      \<or> nm = ''set'' \<or> nm = ''add_library'' \<or> nm = ''add_executable'' \<or> nm = ''target_''
      \<or> nm = ''find_'' \<or> nm = ''include'' \<or> nm = ''project''
      \<or> nm = ''cmake_minimum_required'')"

function synchronize_loop :: "Parser \<Rightarrow> Parser" where
  "synchronize_loop p =
     (if check Eof p then p
      else if 0 < current_index p \<and> token_type (token_at p (current_index p - 1)) = Newline
      then p
      else if check Identifier p
              \<and> (case token_value (current p) of
                    StringValue nm \<Rightarrow> is_statement_start nm
                  | _ \<Rightarrow> False)
      then p
      else synchronize_loop (advance p))"
  by pat_completeness auto
termination
proof (relation "measure (\<lambda>p. length (token_buffer p) - current_index p)")
  show "wf (measure (\<lambda>p. length (token_buffer p) - current_index p))"
    by simp
next
  fix p :: Parser
  assume not_eof: "\<not> check Eof p"
  then have "current_index p < length (token_buffer p)"
    by (auto simp: check_def current_def token_at_def eof_token_def split: if_splits)
  then show "(advance p, p) \<in> measure (\<lambda>p. length (token_buffer p) - current_index p)"
    using not_eof by (simp add: advance_def)
qed

declare synchronize_loop.simps [simp del]

definition synchronize :: "Parser \<Rightarrow> Parser" where
  "synchronize p = synchronize_loop (p\<lparr>panic_mode := False\<rparr>)"

text \<open>The prefix test that the specification describes for \<open>target_\<close> and
  \<open>find_\<close>.\<close>

definition is_statement_starter_spec :: "string \<Rightarrow> bool" where
  "is_statement_starter_spec nm =
     (nm \<in> {''if'', ''foreach'', ''while'', ''function'', ''macro'', ''set'', ''add_library'',
             ''add_executable'', ''include'', ''project'', ''cmake_minimum_required''}
      \<or> starts_with nm ''target_'' \<or> starts_with nm ''find_'')"

section \<open>Parser: CPM package commands (cpm_parser.cpp)\<close>

datatype ParseCategory =
  UnexpectedToken | UnterminatedString | InvalidSyntax | UnknownCommand | TooManyArguments
  | TooFewArguments | InvalidEscape | UnbalancedParens | UnexpectedEOF

text \<open>A parse error: its category and message. The one-argument constructor of the
  source defaults the category to \<open>InvalidSyntax\<close>.\<close>

datatype ParseError = ParseError ParseCategory string

definition parse_error :: "string \<Rightarrow> ParseError" where
  "parse_error msg = ParseError InvalidSyntax msg"

datatype CPMSourceType = GitHub | GitURL | URL | Local

record CPMVersion =
  version :: string
  exact :: bool
  git_tag :: string

text \<open>The default-constructed \<open>CPMVersion\<close>: \<open>exact\<close> is initialised to false.\<close>

definition CPMVersion_default :: CPMVersion where
  "CPMVersion_default = \<lparr>version = [], exact = False, git_tag = []\<rparr>"

text \<open>
  The node \<open>CPMAddPackage\<close>. The constructor leaves \<open>source_type_\<close> without a value
  until \<open>set_source\<close> runs, which is \<open>None\<close> here; \<open>options\<close> is a \<open>std::map\<close>,
  kept as its entries in key order.
\<close>

record CPMAddPackage =
  package_name :: string
  source_type :: "CPMSourceType option"
  source :: string
  package_version :: "CPMVersion option"
  package_options :: "(string \<times> string) list"
  find_package_fallback :: bool

definition CPMAddPackage_new :: "string \<Rightarrow> CPMAddPackage" where
  "CPMAddPackage_new nm =
     \<lparr>package_name = nm, source_type = None, source = [], package_version = None,
      package_options = [], find_package_fallback = True\<rparr>"

definition set_source :: "CPMSourceType \<Rightarrow> string \<Rightarrow> CPMAddPackage \<Rightarrow> CPMAddPackage" where
  "set_source ty src p = p\<lparr>source_type := Some ty, source := src\<rparr>"

definition set_version :: "CPMVersion \<Rightarrow> CPMAddPackage \<Rightarrow> CPMAddPackage" where
  "set_version v p = p\<lparr>package_version := Some v\<rparr>"

subsection \<open>The three regular expressions\<close>

text \<open>
  The sources match whole strings (\<open>std::regex_match\<close>, ECMAScript grammar) against
  \<^item> \<open>GITHUB_SHORTHAND_REGEX = ^(?:gh:)?([^/@#]+)/([^/@#]+)(?:[@#](.+))?$\<close>,
  \<^item> \<open>VERSION_EXACT_REGEX = ^@(.+)$\<close> and
  \<^item> \<open>VERSION_MIN_REGEX = ^>=(.+)$\<close>.
  A dot matches every byte but the line terminators \<open>\n\<close> and \<open>\r\<close>. The character class
  \<open>[^/@#]\<close> excludes what must follow each of the two groups, so a group is the longest run
  of such bytes. The optional prefix \<open>gh:\<close> is tried first and given up when the rest
  does not match.
\<close>

definition regex_dot :: "char \<Rightarrow> bool" where
  "regex_dot c = (c \<noteq> CHR 0x0A \<and> c \<noteq> CHR 0x0D)"

definition not_separator :: "char \<Rightarrow> bool" where
  "not_separator c = (c \<noteq> CHR ''/'' \<and> c \<noteq> CHR ''@'' \<and> c \<noteq> CHR ''#'')"

text \<open>\<open>.+$\<close>: one or more bytes up to the end, none a line terminator.\<close>

definition dot_plus_to_end :: "string \<Rightarrow> bool" where
  "dot_plus_to_end s = (s \<noteq> [] \<and> list_all regex_dot s)"

text \<open>\<open>([^/@#]+)/([^/@#]+)(?:[@#](.+))?$\<close>; the result holds the three groups, an unset
  third group being the empty string as \<open>match[3].str()\<close> gives it.\<close>

definition match_owner_repo :: "string \<Rightarrow> (string \<times> string \<times> string) option" where
  "match_owner_repo s =
     (let owner = takeWhile not_separator s in
      if owner = [] then None
      else case dropWhile not_separator s of
             [] \<Rightarrow> None
           | c # r \<Rightarrow>
               if c \<noteq> CHR ''/'' then None
               else let repo = takeWhile not_separator r in
                    if repo = [] then None
                    else case dropWhile not_separator r of
                           [] \<Rightarrow> Some (owner, repo, [])
                         | d # v \<Rightarrow>
                             if (d = CHR ''@'' \<or> d = CHR ''#'') \<and> dot_plus_to_end v
                             then Some (owner, repo, v) else None)"

definition match_github_shorthand :: "string \<Rightarrow> (string \<times> string \<times> string) option" where
  "match_github_shorthand s =
     (if take 3 s = ''gh:''
      then (case match_owner_repo (drop 3 s) of
              Some m \<Rightarrow> Some m
            | None \<Rightarrow> match_owner_repo s)
      else match_owner_repo s)"

definition match_version_exact :: "string \<Rightarrow> string option" where
  "match_version_exact s =
     (case s of c # v \<Rightarrow> if c = CHR ''@'' \<and> dot_plus_to_end v then Some v else None
              | [] \<Rightarrow> None)"

definition match_version_min :: "string \<Rightarrow> string option" where
  "match_version_min s =
     (if take 2 s = ''>='' \<and> dot_plus_to_end (drop 2 s) then Some (drop 2 s) else None)"

subsection \<open>\<open>CPMParser\<close>\<close>

definition is_github_shorthand :: "string \<Rightarrow> bool" where
  "is_github_shorthand str = (match_github_shorthand str \<noteq> None)"

definition parse_github_shorthand :: "string \<Rightarrow> ParseError + (string \<times> string)" where
  "parse_github_shorthand shorthand =
     (case match_github_shorthand shorthand of
        None \<Rightarrow> Inl (parse_error (''Invalid CPM shorthand syntax: '' @ shorthand))
      | Some (owner, repo, ver) \<Rightarrow> Inr (owner @ ''/'' @ repo, ver))"

definition parse_version_string :: "string \<Rightarrow> ParseError + CPMVersion" where
  "parse_version_string version_str =
     (case match_version_exact version_str of
        Some m \<Rightarrow> Inr (CPMVersion_default\<lparr>version := m, exact := True\<rparr>)
      | None \<Rightarrow>
         (case match_version_min version_str of
            Some m \<Rightarrow> Inr (CPMVersion_default\<lparr>version := m, exact := False\<rparr>)
          | None \<Rightarrow>
              (let v = CPMVersion_default\<lparr>version := version_str, exact := False\<rparr> in
               if CHR ''/'' \<in> set version_str \<or> CHR ''-'' \<in> set version_str
                  \<or> length version_str = 40
               then Inr (v\<lparr>git_tag := version_str\<rparr>)
               else Inr v)))"

definition parse_cpm_add_package_shorthand :: "string \<Rightarrow> ParseError + CPMAddPackage" where
  "parse_cpm_add_package_shorthand shorthand =
     (case parse_github_shorthand shorthand of
        Inl e \<Rightarrow> Inl e
      | Inr (repo_spec, version_str) \<Rightarrow>
          if CHR ''/'' \<notin> set repo_spec
          then Inl (parse_error ''Invalid GitHub repository format'')
          else let repo = tl (dropWhile (\<lambda>c. c \<noteq> CHR ''/'') repo_spec);
                   package = set_source GitHub repo_spec (CPMAddPackage_new repo)
               in if version_str \<noteq> []
                  then (case parse_version_string version_str of
                          Inr v \<Rightarrow> Inr (set_version v package)
                        | Inl e \<Rightarrow> Inl e)
                  else Inr package)"

section \<open>The abstract syntax tree (include/finch/parser/ast)\<close>

text \<open>
  One constructor per node class. Source locations are left out: the evaluator never reads
  them. A number literal keeps its text and its value, an integer or a float.
\<close>

datatype NumberValue = Integer int | Float real

datatype VariableType = Normal | Environment | Cache

datatype LoopType = IN_LISTS | IN_ITEMS | IN | RANGE | IN_ZIP_LISTS

datatype BinaryOperator =
  B_AND | B_OR | B_NOT | B_EQUAL | B_NOT_EQUAL | B_LESS | B_LESS_EQUAL | B_GREATER
  | B_GREATER_EQUAL | B_MATCHES | B_STREQUAL | B_STRLESS | B_STRGREATER | B_VERSION_EQUAL
  | B_VERSION_LESS | B_VERSION_GREATER | B_ADD | B_SUBTRACT | B_MULTIPLY | B_DIVIDE | B_MOD

datatype UnaryOperator = U_NOT | U_EXISTS | U_DEFINED | U_IS_DIRECTORY | U_IS_ABSOLUTE | U_COMMAND

datatype ASTNode =
  StringLiteral string bool
| NumberLiteral string NumberValue
| BooleanLiteral bool string
| Identifier string
| Variable string VariableType
| CommandCall string "ASTNode list"
| FunctionDef string "string list" "ASTNode list"
| MacroDef string "string list" "ASTNode list"
| IfStatement ASTNode "ASTNode list" "ASTNode list" "ASTNode list"
| ElseIfStatement ASTNode
| ElseStatement
| WhileStatement ASTNode "ASTNode list"
| ForEachStatement "string list" LoopType "ASTNode list" "ASTNode list"
| BinaryOp ASTNode BinaryOperator ASTNode
| UnaryOp UnaryOperator ASTNode
| FunctionCall string "ASTNode list"
| ListExpression "ASTNode list" char
| GeneratorExpression string
| BracketExpression ASTNode bool
| Block "ASTNode list"
| File string "ASTNode list" "string option"
| CPMAddPackageNode CPMAddPackage
| CPMFindPackage string "string option" "string list" "string option" "string option"
| CPMUsePackageLock string
| CPMDeclarePackage string string "string option" "string option"
| ErrorNode string ParseCategory

text \<open>\<open>as_float\<close>: the float itself, or the integer converted. The conversion of the
  source rounds integers beyond 2^53; nothing below depends on such values.\<close>

fun as_float :: "NumberValue \<Rightarrow> real" where
  "as_float (Float d) = d"
| "as_float (Integer i) = of_int i"

fun is_ElseIfStatement :: "ASTNode \<Rightarrow> bool" where
  "is_ElseIfStatement (ElseIfStatement c) = True"
| "is_ElseIfStatement n = False"

section \<open>Analyzer: evaluation context and values (evaluation_context.hpp/.cpp)\<close>

datatype AnalysisCategory =
  UnknownTarget | CircularDependency | MissingDependency | InvalidProperty | UnsupportedFeature
  | PlatformSpecific | TypeMismatch | UndefinedVariable | InvalidConfiguration

text \<open>An analysis error: category and message; the one-argument constructor of the source
  defaults the category to \<open>InvalidConfiguration\<close>.\<close>

datatype AnalysisError = AnalysisError AnalysisCategory string

definition analysis_error :: "string \<Rightarrow> AnalysisError" where
  "analysis_error msg = AnalysisError InvalidConfiguration msg"

datatype Confidence = Certain | Likely | Uncertain | Unknown

text \<open>The enumerators' integer values, which \<open>std::min\<close> compares.\<close>

fun confidence_rank :: "Confidence \<Rightarrow> nat" where
  "confidence_rank Certain = 0"
| "confidence_rank Likely = 1"
| "confidence_rank Uncertain = 2"
| "confidence_rank Unknown = 3"

definition confidence_min :: "Confidence \<Rightarrow> Confidence \<Rightarrow> Confidence" where
  "confidence_min a b = (if confidence_rank b < confidence_rank a then b else a)"

datatype Value = VString string | VBool bool | VNumber real | VList "string list"

record EvaluatedValue =
  val :: Value
  confidence :: Confidence

definition is_certain :: "EvaluatedValue \<Rightarrow> bool" where
  "is_certain v = (confidence v = Certain)"

definition is_known :: "EvaluatedValue \<Rightarrow> bool" where
  "is_known v = (confidence v \<noteq> Unknown)"

datatype TargetType =
  StaticLibrary | SharedLibrary | ExecutableTarget | InterfaceLibrary | CustomTarget | UnknownType

record Target =
  name :: string
  target_type :: TargetType
  source_directory :: string
  sources :: "string list"
  headers :: "string list"
  include_directories :: "string list"
  compile_definitions :: "string list"
  compile_options :: "string list"
  link_libraries :: "string list"
  properties :: "string \<rightharpoonup> string"

definition Target_default :: Target where
  "Target_default =
     \<lparr>name = [], target_type = UnknownType, source_directory = [], sources = [], headers = [],
      include_directories = [], compile_definitions = [], compile_options = [],
      link_libraries = [], properties = Map.empty\<rparr>"

text \<open>
  A scope: three maps, the targets found so far, and the parent scope if there is one.
\<close>

datatype EvaluationContext =
  EvaluationContext
    (variables: "string \<rightharpoonup> EvaluatedValue")
    (cache_variables: "string \<rightharpoonup> EvaluatedValue")
    (platform_checks: "string \<rightharpoonup> bool")
    (targets: "Target list")
    (parent: "EvaluationContext option")

definition EvaluationContext_new :: EvaluationContext where
  "EvaluationContext_new = EvaluationContext Map.empty Map.empty Map.empty [] None"

fun set_variable :: "string \<Rightarrow> Value \<Rightarrow> Confidence \<Rightarrow> EvaluationContext \<Rightarrow> EvaluationContext" where
  "set_variable nm v conf (EvaluationContext vs cs ps ts p) =
     EvaluationContext (vs(nm \<mapsto> \<lparr>val = v, confidence = conf\<rparr>)) cs ps ts p"

fun get_variable :: "EvaluationContext \<Rightarrow> string \<Rightarrow> EvaluatedValue option" where
  "get_variable (EvaluationContext vs cs ps ts p) nm =
     (case vs nm of
        Some v \<Rightarrow> Some v
      | None \<Rightarrow> (case p of Some parent_scope \<Rightarrow> get_variable parent_scope nm | None \<Rightarrow> None))"

fun set_cache_variable :: "string \<Rightarrow> Value \<Rightarrow> Confidence \<Rightarrow> EvaluationContext \<Rightarrow> EvaluationContext" where
  "set_cache_variable nm v conf (EvaluationContext vs cs ps ts p) =
     EvaluationContext vs (cs(nm \<mapsto> \<lparr>val = v, confidence = conf\<rparr>)) ps ts p"

definition get_cache_variable :: "EvaluationContext \<Rightarrow> string \<Rightarrow> EvaluatedValue option" where
  "get_cache_variable ctx nm = cache_variables ctx nm"

fun add_target :: "Target \<Rightarrow> EvaluationContext \<Rightarrow> EvaluationContext" where
  "add_target t (EvaluationContext vs cs ps ts p) = EvaluationContext vs cs ps (ts @ [t]) p"

text \<open>What the evaluator takes from its surroundings: the text that the C++ stream library
  prints for a \<open>double\<close>, the process's current directory, and the operating system the
  program was compiled for (the \<open>#ifdef\<close> of \<open>initialize_builtin_variables\<close>).\<close>

datatype HostOS = Windows | Apple | OtherUnix

record Host =
  double_to_string :: "real \<Rightarrow> string"
  current_path :: string
  host_os :: HostOS

fun join_semicolon :: "string list \<Rightarrow> string" where
  "join_semicolon [] = []"
| "join_semicolon [x] = x"
| "join_semicolon (x # y # ys) = x @ '';'' @ join_semicolon (y # ys)"

fun to_string :: "Host \<Rightarrow> Value \<Rightarrow> string" where
  "to_string h (VString s) = s"
| "to_string h (VBool b) = (if b then ''TRUE'' else ''FALSE'')"
| "to_string h (VNumber d) = double_to_string h d"
| "to_string h (VList l) = join_semicolon l"

fun is_truthy :: "Value \<Rightarrow> bool" where
  "is_truthy (VString v) =
     (v \<noteq> [] \<and> v \<noteq> ''0'' \<and> v \<noteq> ''OFF'' \<and> v \<noteq> ''NO'' \<and> v \<noteq> ''FALSE'' \<and> v \<noteq> ''N''
      \<and> v \<noteq> ''IGNORE'' \<and> v \<noteq> ''NOTFOUND'' \<and> \<not> ends_with v ''-NOTFOUND'')"
| "is_truthy (VBool b) = b"
| "is_truthy (VNumber d) = (d \<noteq> 0)"
| "is_truthy (VList l) = (l \<noteq> [])"

text \<open>
  \<open>initialize_builtin_variables\<close>. The string literals of the source become the string
  alternative of the variant (the C++20 rule for converting a \<open>const char*\<close>).
\<close>

definition initialize_builtin_variables :: "HostOS \<Rightarrow> EvaluationContext \<Rightarrow> EvaluationContext" where
  "initialize_builtin_variables opsys ctx =
     (let ctx = set_variable ''CMAKE_SOURCE_DIR'' (VString ''/source'') Uncertain ctx;
          ctx = set_variable ''CMAKE_BINARY_DIR'' (VString ''/build'') Uncertain ctx;
          ctx = set_variable ''CMAKE_CURRENT_SOURCE_DIR'' (VString ''/source'') Uncertain ctx;
          ctx = set_variable ''CMAKE_CURRENT_BINARY_DIR'' (VString ''/build'') Uncertain ctx;
          ctx = (case opsys of
                   Windows \<Rightarrow>
                     set_variable ''LINUX'' (VString []) Certain
                       (set_variable ''APPLE'' (VString []) Certain
                         (set_variable ''UNIX'' (VString []) Certain
                           (set_variable ''WINDOWS'' (VString ''1'') Certain
                             (set_variable ''WIN32'' (VString ''1'') Certain ctx))))
                 | Apple \<Rightarrow>
                     set_variable ''LINUX'' (VString []) Certain
                       (set_variable ''WINDOWS'' (VString []) Certain
                         (set_variable ''WIN32'' (VString []) Certain
                           (set_variable ''DARWIN'' (VString ''1'') Certain
                             (set_variable ''UNIX'' (VString ''1'') Certain
                               (set_variable ''APPLE'' (VString ''1'') Certain ctx)))))
                 | OtherUnix \<Rightarrow>
                     set_variable ''APPLE'' (VString []) Certain
                       (set_variable ''WINDOWS'' (VString []) Certain
                         (set_variable ''WIN32'' (VString []) Certain
                           (set_variable ''LINUX'' (VString ''1'') Certain
                             (set_variable ''UNIX'' (VString ''1'') Certain ctx)))));
          ctx = set_variable ''CMAKE_CXX_COMPILER_ID'' (VString ''Generic'') Uncertain ctx;
          ctx = set_variable ''CMAKE_CXX_STANDARD'' (VString ''17'') Likely ctx;
          ctx = set_variable ''CMAKE_C_COMPILER_ID'' (VString ''Generic'') Uncertain ctx;
          ctx = set_variable ''CMAKE_C_STANDARD'' (VString ''11'') Likely ctx;
          ctx = set_variable ''CMAKE_BUILD_TYPE'' (VString ''Release'') Uncertain ctx;
          ctx = set_variable ''TRUE'' (VString ''1'') Certain ctx;
          ctx = set_variable ''FALSE'' (VString []) Certain ctx;
          ctx = set_variable ''ON'' (VString ''ON'') Certain ctx;
          ctx = set_variable ''OFF'' (VString ''OFF'') Certain ctx;
          ctx = set_variable ''YES'' (VString ''1'') Certain ctx;
          ctx = set_variable ''NO'' (VString []) Certain ctx
      in ctx)"

section \<open>Analyzer: the evaluator (cmake_evaluator.cpp)\<close>

subsection \<open>String interpolation\<close>

definition expand_variable_reference ::
  "Host \<Rightarrow> EvaluationContext \<Rightarrow> string \<Rightarrow> AnalysisError + string" where
  "expand_variable_reference h ctx var_name =
     (if starts_with var_name ''ENV{'' \<and> ends_with var_name ''}''
      then Inr (''${'' @ var_name @ ''}'')
      else case get_variable ctx var_name of
             Some v \<Rightarrow> Inr (to_string h (val v))
           | None \<Rightarrow>
              (case get_cache_variable ctx var_name of
                 Some v \<Rightarrow> Inr (to_string h (val v))
               | None \<Rightarrow> Inl (analysis_error (''Unknown variable: '' @ var_name))))"

text \<open>
  \<open>std::regex_search\<close> with the pattern \<open>\$\{([^}]+)\}\<close>: the leftmost occurrence of
  \<open>${\<close>, one or more bytes other than \<open>}\<close>, and \<open>}\<close>. The class \<open>[^}]\<close> excludes the
  byte that must follow it, so the group is the whole run up to the next \<open>}\<close>. The result
  is the position of the match relative to the start of the search, its length, and the
  group.
\<close>

definition match_var_body :: "string \<Rightarrow> string option" where
  "match_var_body s =
     (case s of
        c # r \<Rightarrow>
          if c = CHR ''{'' \<and> takeWhile (\<lambda>x. x \<noteq> CHR ''}'') r \<noteq> []
             \<and> dropWhile (\<lambda>x. x \<noteq> CHR ''}'') r \<noteq> []
          then Some (takeWhile (\<lambda>x. x \<noteq> CHR ''}'') r) else None
      | [] \<Rightarrow> None)"

fun var_pattern_search :: "string \<Rightarrow> (nat \<times> nat \<times> string) option" where
  "var_pattern_search [] = None"
| "var_pattern_search (c # cs) =
     (case (if c = CHR ''$'' then match_var_body cs else None) of
        Some var_name \<Rightarrow> Some (0, length var_name + 3, var_name)
      | None \<Rightarrow> map_option (\<lambda>(p, l, n). (Suc p, l, n)) (var_pattern_search cs))"

text \<open>
  The loop of \<open>interpolate_string\<close>. It searches the original string \<open>str\<close> from
  \<open>search_start\<close> and edits \<open>result\<close> at the positions found in \<open>str\<close>. The result is
  \<open>None\<close> when the source does not return normally: the loop runs forever (an expansion
  to the empty string leaves \<open>search_start\<close> where it was), \<open>search_start\<close> moves past
  the end of \<open>str\<close> (an iterator out of range), or \<open>std::string::replace\<close> throws
  \<open>std::out_of_range\<close>.
\<close>

partial_function (option) interpolate_loop ::
  "Host \<Rightarrow> EvaluationContext \<Rightarrow> string \<Rightarrow> nat \<Rightarrow> string \<Rightarrow> string option" where
  "interpolate_loop h ctx str search_start result =
     (if length str < search_start then None
      else case var_pattern_search (drop search_start str) of
             None \<Rightarrow> Some result
           | Some (p, len, var_name) \<Rightarrow>
               (case expand_variable_reference h ctx var_name of
                  Inr expanded \<Rightarrow>
                    (let pos = p + search_start in
                     if length result < pos then None
                     else interpolate_loop h ctx str (pos + length expanded)
                            (take pos result @ expanded @ drop (pos + len) result))
                | Inl e \<Rightarrow> interpolate_loop h ctx str (search_start + p + len) result))"

declare interpolate_loop.simps [code]

definition interpolate_string ::
  "Host \<Rightarrow> EvaluationContext \<Rightarrow> string \<Rightarrow> (AnalysisError + string) option" where
  "interpolate_string h ctx str = map_option Inr (interpolate_loop h ctx str 0 str)"

subsection \<open>Loops and results\<close>

text \<open>
  The evaluator is a visitor that mutates one \<open>EvaluationContext\<close>. Here every function
  takes the context and returns it with its result. \<open>None\<close> stands for a call that does
  not return normally (see \<open>interpolate_loop\<close>; also an uncaught
  \<open>std::bad_variant_access\<close>). A \<open>for\<close> loop over nodes is \<open>for_each\<close>: its body
  takes the node and the loop's state.
\<close>

type_synonym EvalResult = "AnalysisError + EvaluatedValue"

type_synonym Evaluator = "ASTNode \<Rightarrow> EvaluationContext \<Rightarrow> (EvalResult \<times> EvaluationContext) option"

fun for_each :: "('a \<Rightarrow> 's \<Rightarrow> 's option) \<Rightarrow> 'a list \<Rightarrow> 's \<Rightarrow> 's option" where
  "for_each body [] s = Some s"
| "for_each body (x # xs) s =
     (case body x s of None \<Rightarrow> None | Some s' \<Rightarrow> for_each body xs s')"

definition empty_result :: "Confidence \<Rightarrow> EvalResult" where
  "empty_result conf = Inr \<lparr>val = VString [], confidence = conf\<rparr>"

text \<open>The loop of \<open>visit(Block)\<close>, \<open>visit(File)\<close> and the branches of an
  \<open>if\<close>: each statement is evaluated and its result dropped.\<close>

definition evaluate_statements ::
  "Evaluator \<Rightarrow> ASTNode list \<Rightarrow> EvaluationContext \<Rightarrow> EvaluationContext option" where
  "evaluate_statements ev stmts ctx =
     for_each (\<lambda>stmt c. map_option snd (ev stmt c)) stmts ctx"

text \<open>The loop shared by \<open>visit(ListExpression)\<close> and the multi-value form of
  \<open>set\<close>: the values as strings, the \<open>std::min\<close> of the confidences, and a stop at
  the first error (the flag is the \<open>break\<close>).\<close>

definition collect_list_values ::
  "Host \<Rightarrow> Evaluator \<Rightarrow> ASTNode list \<Rightarrow> EvaluationContext
     \<Rightarrow> (EvaluationContext \<times> string list \<times> Confidence \<times> bool) option" where
  "collect_list_values h ev nodes ctx =
     for_each
       (\<lambda>node (c, list_values, min_confidence, stopped).
          if stopped then Some (c, list_values, min_confidence, stopped)
          else do {
            (r, c') \<leftarrow> ev node c;
            (case r of
               Inl e \<Rightarrow> Some (c', list_values, Unknown, True)
             | Inr v \<Rightarrow>
                 Some (c', list_values @ [to_string h (val v)],
                       confidence_min min_confidence (confidence v), False))
          })
       nodes (ctx, [], Certain, False)"

subsection \<open>Commands\<close>

definition evaluate_set_command ::
  "Host \<Rightarrow> Evaluator \<Rightarrow> ASTNode list \<Rightarrow> EvaluationContext
     \<Rightarrow> (EvalResult \<times> EvaluationContext) option" where
  "evaluate_set_command h ev args ctx =
     (if length args < 2
      then Some (Inl (analysis_error ''set() requires at least 2 arguments''), ctx)
      else do {
        (name_result, c1) \<leftarrow> ev (args ! 0) ctx;
        (case name_result of
           Inl e \<Rightarrow> Some (Inl (analysis_error ''Cannot determine variable name''), c1)
         | Inr nv \<Rightarrow>
             if \<not> is_certain nv
             then Some (Inl (analysis_error ''Cannot determine variable name''), c1)
             else (case val nv of
                     VString var_name \<Rightarrow>
                       if length args = 2
                       then do {
                         (value_result, c2) \<leftarrow> ev (args ! 1) c1;
                         (case value_result of
                            Inr v \<Rightarrow>
                              Some (empty_result Certain,
                                    set_variable var_name (val v) (confidence v) c2)
                          | Inl e \<Rightarrow> Some (empty_result Certain, c2))
                       }
                       else do {
                         (c2, list_values, min_confidence, stopped) \<leftarrow>
                            collect_list_values h ev (drop 1 args) c1;
                         Some (empty_result Certain,
                               set_variable var_name (VList list_values) min_confidence c2)
                       }
                   | _ \<Rightarrow> None))
      })"

definition evaluate_cmake_minimum_required ::
  "Host \<Rightarrow> Evaluator \<Rightarrow> ASTNode list \<Rightarrow> EvaluationContext
     \<Rightarrow> (EvalResult \<times> EvaluationContext) option" where
  "evaluate_cmake_minimum_required h ev args ctx =
     (if length args < 2
      then Some (Inl (analysis_error ''cmake_minimum_required() requires VERSION argument''), ctx)
      else do {
        (c1, version_idx, found) \<leftarrow>
          for_each
            (\<lambda>(i, arg) (c, version_idx, found).
               if found then Some (c, version_idx, found)
               else do {
                 (keyword_result, c') \<leftarrow> ev arg c;
                 (case keyword_result of
                    Inr v \<Rightarrow>
                      if to_string h (val v) = ''VERSION'' then Some (c', i + 1, True)
                      else Some (c', version_idx, False)
                  | Inl e \<Rightarrow> Some (c', version_idx, False))
               })
            (enumerate 0 (butlast args)) (ctx, 0, False);
        if 0 < version_idx \<and> version_idx < length args
        then do {
          (version_result, c2) \<leftarrow> ev (args ! version_idx) c1;
          (case version_result of
             Inr v \<Rightarrow>
               Some (empty_result Certain,
                     set_variable ''CMAKE_MINIMUM_REQUIRED_VERSION''
                       (VString (to_string h (val v))) Certain c2)
           | Inl e \<Rightarrow> Some (empty_result Certain, c2))
        }
        else Some (empty_result Certain, c1)
      })"

definition evaluate_option_command ::
  "Host \<Rightarrow> Evaluator \<Rightarrow> ASTNode list \<Rightarrow> EvaluationContext
     \<Rightarrow> (EvalResult \<times> EvaluationContext) option" where
  "evaluate_option_command h ev args ctx =
     (if length args < 2
      then Some (Inl (analysis_error ''option() requires at least 2 arguments''), ctx)
      else do {
        (name_result, c1) \<leftarrow> ev (args ! 0) ctx;
        (case name_result of
           Inl e \<Rightarrow> Some (Inl e, c1)
         | Inr nv \<Rightarrow> do {
             (default_value, c2) \<leftarrow>
               (if 3 \<le> length args
                then do {
                  (value_result, c2) \<leftarrow> ev (args ! (length args - 1)) c1;
                  (case value_result of
                     Inr v \<Rightarrow>
                       (let value_str = to_string h (val v) in
                        Some (value_str = ''ON'' \<or> value_str = ''TRUE'' \<or> value_str = ''YES''
                              \<or> value_str = ''1'', c2))
                   | Inl e \<Rightarrow> Some (False, c2))
                }
                else Some (False, c1));
             Some (empty_result Certain,
                   set_cache_variable (to_string h (val nv))
                     (VString (if default_value then ''ON'' else ''OFF'')) Uncertain c2)
           })
      })"

definition evaluate_project_command ::
  "Host \<Rightarrow> Evaluator \<Rightarrow> ASTNode list \<Rightarrow> EvaluationContext
     \<Rightarrow> (EvalResult \<times> EvaluationContext) option" where
  "evaluate_project_command h ev args ctx =
     (if args \<noteq> []
      then do {
        (name_result, c1) \<leftarrow> ev (args ! 0) ctx;
        (case name_result of
           Inr v \<Rightarrow>
             (let project_name = to_string h (val v) in
              Some (empty_result Certain,
                    set_variable ''CMAKE_PROJECT_NAME'' (VString project_name) Certain
                      (set_variable ''PROJECT_NAME'' (VString project_name) Certain c1)))
         | Inl e \<Rightarrow> Some (empty_result Certain, c1))
      }
      else Some (empty_result Certain, ctx))"

definition evaluate_message_command ::
  "ASTNode list \<Rightarrow> EvaluationContext \<Rightarrow> (EvalResult \<times> EvaluationContext) option" where
  "evaluate_message_command args ctx = Some (empty_result Certain, ctx)"

definition evaluate_if_command ::
  "ASTNode list \<Rightarrow> EvaluationContext \<Rightarrow> (EvalResult \<times> EvaluationContext) option" where
  "evaluate_if_command args ctx = Some (empty_result Certain, ctx)"

text \<open>The source loops of \<open>add_library\<close> and \<open>add_executable\<close>: every argument that
  evaluates to a value is pushed, as a string, onto the sources.\<close>

definition collect_sources ::
  "Host \<Rightarrow> Evaluator \<Rightarrow> ASTNode list \<Rightarrow> EvaluationContext
     \<Rightarrow> (EvaluationContext \<times> string list) option" where
  "collect_sources h ev nodes ctx =
     for_each
       (\<lambda>node (c, srcs). do {
          (source_result, c') \<leftarrow> ev node c;
          (case source_result of
             Inr v \<Rightarrow> Some (c', srcs @ [to_string h (val v)])
           | Inl e \<Rightarrow> Some (c', srcs))
        })
       nodes (ctx, [])"

definition evaluate_add_library_command ::
  "Host \<Rightarrow> Evaluator \<Rightarrow> ASTNode list \<Rightarrow> EvaluationContext
     \<Rightarrow> (EvalResult \<times> EvaluationContext) option" where
  "evaluate_add_library_command h ev args ctx =
     (if args = []
      then Some (Inl (analysis_error ''add_library() requires target name''), ctx)
      else do {
        (name_result, c1) \<leftarrow> ev (args ! 0) ctx;
        (case name_result of
           Inl e \<Rightarrow> Some (Inl e, c1)
         | Inr nv \<Rightarrow> do {
             ((ty, source_start), c2) \<leftarrow>
               (if 1 < length args
                then do {
                  (type_result, c2) \<leftarrow> ev (args ! 1) c1;
                  (case type_result of
                     Inr tv \<Rightarrow>
                       (let type_str = to_string h (val tv) in
                        if type_str = ''SHARED'' then Some ((SharedLibrary, 2), c2)
                        else if type_str = ''STATIC'' then Some ((StaticLibrary, 2), c2)
                        else if type_str = ''INTERFACE'' then Some ((InterfaceLibrary, 2), c2)
                        else Some ((StaticLibrary, 1), c2))
                   | Inl e \<Rightarrow> Some ((StaticLibrary, 1), c2))
                }
                else Some ((StaticLibrary, 1), c1));
             (c3, srcs) \<leftarrow> collect_sources h ev (drop source_start args) c2;
             Some (empty_result Certain,
                   add_target
                     (Target_default\<lparr>name := to_string h (val nv), target_type := ty,
                        sources := srcs, source_directory := current_path h\<rparr>) c3)
           })
      })"

definition evaluate_add_executable_command ::
  "Host \<Rightarrow> Evaluator \<Rightarrow> ASTNode list \<Rightarrow> EvaluationContext
     \<Rightarrow> (EvalResult \<times> EvaluationContext) option" where
  "evaluate_add_executable_command h ev args ctx =
     (if args = []
      then Some (Inl (analysis_error ''add_executable() requires target name''), ctx)
      else do {
        (name_result, c1) \<leftarrow> ev (args ! 0) ctx;
        (case name_result of
           Inl e \<Rightarrow> Some (Inl e, c1)
         | Inr nv \<Rightarrow> do {
             (c2, srcs) \<leftarrow> collect_sources h ev (drop 1 args) c1;
             Some (empty_result Certain,
                   add_target
                     (Target_default\<lparr>name := to_string h (val nv),
                        target_type := ExecutableTarget, sources := srcs,
                        source_directory := current_path h\<rparr>) c2)
           })
      })"

text \<open>
  The three property setters of the source are one text with three differences: the message
  of the arity error and the vector that receives the values. \<open>find_target\<close> is the search
  of the \<open>for\<close> loop over the targets: the index of the first target of that name.
  \<open>update_target\<close> is the write through the reference into the vector.
\<close>

fun find_target :: "string \<Rightarrow> Target list \<Rightarrow> nat option" where
  "find_target target_name [] = None"
| "find_target target_name (t # ts) =
     (if Target.name t = target_name then Some 0
      else map_option Suc (find_target target_name ts))"

fun update_target :: "nat \<Rightarrow> (Target \<Rightarrow> Target) \<Rightarrow> EvaluationContext \<Rightarrow> EvaluationContext" where
  "update_target k f (EvaluationContext vs cs ps ts p) =
     EvaluationContext vs cs ps (ts[k := f (ts ! k)]) p"

definition evaluate_target_property_command ::
  "string \<Rightarrow> (string \<Rightarrow> Target \<Rightarrow> Target) \<Rightarrow> Host \<Rightarrow> Evaluator \<Rightarrow> ASTNode list
     \<Rightarrow> EvaluationContext \<Rightarrow> (EvalResult \<times> EvaluationContext) option" where
  "evaluate_target_property_command arity_message push_back h ev args ctx =
     (if length args < 2
      then Some (Inl (analysis_error arity_message), ctx)
      else do {
        (name_result, c1) \<leftarrow> ev (args ! 0) ctx;
        (case name_result of
           Inl e \<Rightarrow> Some (Inl e, c1)
         | Inr nv \<Rightarrow>
            (case find_target (to_string h (val nv)) (targets c1) of
               None \<Rightarrow> Some (empty_result Certain, c1)
             | Some k \<Rightarrow> do {
                 c2 \<leftarrow>
                   for_each
                     (\<lambda>arg c. do {
                        (r, c') \<leftarrow> ev arg c;
                        (case r of
                           Inr v \<Rightarrow>
                             (let s = to_string h (val v) in
                              if s \<noteq> ''PUBLIC'' \<and> s \<noteq> ''PRIVATE'' \<and> s \<noteq> ''INTERFACE''
                              then Some (update_target k (push_back s) c')
                              else Some c')
                         | Inl e \<Rightarrow> Some c')
                      })
                     (drop 1 args) c1;
                 Some (empty_result Certain, c2)
               }))
      })"

definition evaluate_target_include_directories_command ::
  "Host \<Rightarrow> Evaluator \<Rightarrow> ASTNode list \<Rightarrow> EvaluationContext
     \<Rightarrow> (EvalResult \<times> EvaluationContext) option" where
  "evaluate_target_include_directories_command =
     evaluate_target_property_command
       ''target_include_directories() requires target and directories''
       (\<lambda>s t. t\<lparr>include_directories := include_directories t @ [s]\<rparr>)"

definition evaluate_target_link_libraries_command ::
  "Host \<Rightarrow> Evaluator \<Rightarrow> ASTNode list \<Rightarrow> EvaluationContext
     \<Rightarrow> (EvalResult \<times> EvaluationContext) option" where
  "evaluate_target_link_libraries_command =
     evaluate_target_property_command
       ''target_link_libraries() requires target and libraries''
       (\<lambda>s t. t\<lparr>link_libraries := link_libraries t @ [s]\<rparr>)"

definition evaluate_target_compile_definitions_command ::
  "Host \<Rightarrow> Evaluator \<Rightarrow> ASTNode list \<Rightarrow> EvaluationContext
     \<Rightarrow> (EvalResult \<times> EvaluationContext) option" where
  "evaluate_target_compile_definitions_command =
     evaluate_target_property_command
       ''target_compile_definitions() requires target and definitions''
       (\<lambda>s t. t\<lparr>compile_definitions := compile_definitions t @ [s]\<rparr>)"

subsection \<open>Conditions and \<open>if\<close>\<close>

definition evaluate_condition ::
  "Evaluator \<Rightarrow> ASTNode \<Rightarrow> EvaluationContext
     \<Rightarrow> ((AnalysisError + bool) \<times> EvaluationContext) option" where
  "evaluate_condition ev cond ctx = do {
     (r, c) \<leftarrow> ev cond ctx;
     (case r of
        Inl e \<Rightarrow> Some (Inl e, c)
      | Inr v \<Rightarrow> Some (Inr (is_truthy (val v)), c))
   }"

text \<open>
  The walk over \<open>elseif_branches\<close>, a list that holds the conditions and the bodies in one
  sequence. An \<open>ElseIfStatement\<close> node is a condition; the nodes up to the next one are
  its body. The first condition that is true has its body evaluated and ends the walk with
  \<open>evaluated = true\<close>; a node met where a condition is expected is stepped over.
\<close>

function elseif_walk ::
  "Evaluator \<Rightarrow> ASTNode list \<Rightarrow> EvaluationContext \<Rightarrow> (bool \<times> EvaluationContext) option" where
  "elseif_walk ev [] ctx = Some (False, ctx)"
| "elseif_walk ev (n # rest) ctx =
     (case n of
        ElseIfStatement cond \<Rightarrow> do {
          (elseif_cond, c1) \<leftarrow> evaluate_condition ev cond ctx;
          if elseif_cond = Inr True
          then do {
            c2 \<leftarrow> evaluate_statements ev (takeWhile (\<lambda>b. \<not> is_ElseIfStatement b) rest) c1;
            Some (True, c2)
          }
          else elseif_walk ev (dropWhile (\<lambda>b. \<not> is_ElseIfStatement b) rest) c1
        }
      | _ \<Rightarrow> elseif_walk ev rest ctx)"
  by pat_completeness auto
termination
  by (relation "measure (\<lambda>(ev, branches, ctx). length branches)")
     (auto simp: less_Suc_eq_le length_dropWhile_le)

definition visit_IfStatement ::
  "Evaluator \<Rightarrow> ASTNode \<Rightarrow> ASTNode list \<Rightarrow> ASTNode list \<Rightarrow> ASTNode list
     \<Rightarrow> EvaluationContext \<Rightarrow> (EvalResult \<times> EvaluationContext) option" where
  "visit_IfStatement ev cond then_branch elseif_branches else_branch ctx = do {
     (cond_result, c1) \<leftarrow> evaluate_condition ev cond ctx;
     c4 \<leftarrow>
       (case cond_result of
          Inr True \<Rightarrow> evaluate_statements ev then_branch c1
        | Inr False \<Rightarrow> do {
            (evaluated, c2) \<leftarrow> elseif_walk ev elseif_branches c1;
            if \<not> evaluated \<and> else_branch \<noteq> []
            then evaluate_statements ev else_branch c2
            else Some c2
          }
        | Inl e \<Rightarrow> Some c1);
     Some (empty_result Certain, c4)
   }"

subsection \<open>Congruence rules: which nodes a loop or command evaluates\<close>

lemma for_each_cong [fundef_cong]:
  "xs = ys \<Longrightarrow> s = t \<Longrightarrow> (\<And>x u. x \<in> set ys \<Longrightarrow> f x u = g x u)
   \<Longrightarrow> for_each f xs s = for_each g ys t"
  by (induction ys arbitrary: xs s t) (auto split: option.splits)

lemma node_size_le: "n \<in> set xs \<Longrightarrow> size (n::ASTNode) \<le> size_list size xs"
  by (induction xs) auto

lemma evaluate_statements_cong [fundef_cong]:
  "stmts = stmts' \<Longrightarrow> ctx = ctx' \<Longrightarrow> (\<And>n c. n \<in> set stmts' \<Longrightarrow> ev n c = ev' n c)
   \<Longrightarrow> evaluate_statements ev stmts ctx = evaluate_statements ev' stmts' ctx'"
  unfolding evaluate_statements_def by (rule for_each_cong) auto

lemma collect_list_values_cong [fundef_cong]:
  "nodes = nodes' \<Longrightarrow> ctx = ctx' \<Longrightarrow> (\<And>n c. n \<in> set nodes' \<Longrightarrow> ev n c = ev' n c)
   \<Longrightarrow> collect_list_values h ev nodes ctx = collect_list_values h ev' nodes' ctx'"
  unfolding collect_list_values_def by (rule for_each_cong) auto

lemma collect_sources_cong [fundef_cong]:
  "nodes = nodes' \<Longrightarrow> ctx = ctx' \<Longrightarrow> (\<And>n c. n \<in> set nodes' \<Longrightarrow> ev n c = ev' n c)
   \<Longrightarrow> collect_sources h ev nodes ctx = collect_sources h ev' nodes' ctx'"
  unfolding collect_sources_def by (rule for_each_cong) auto

lemma evaluate_set_command_cong [fundef_cong]:
  assumes "args = args'" and "ctx = ctx'" and "\<And>n c. n \<in> set args' \<Longrightarrow> ev n c = ev' n c"
  shows "evaluate_set_command h ev args ctx = evaluate_set_command h ev' args' ctx'"
proof -
  have nth: "ev (args' ! i) c = ev' (args' ! i) c" if "i < length args'" for i c
    using assms(3) that by simp
  have rest: "collect_list_values h ev (drop k args') c = collect_list_values h ev' (drop k args') c" for k c
    by (rule collect_list_values_cong) (auto dest: in_set_dropD intro: assms(3))
  show ?thesis
  proof (cases "length args' < 2")
    case True
    then show ?thesis
      by (simp add: evaluate_set_command_def assms(1,2))
  next
    case False
    then have "0 < length args'" and "1 < length args'"
      by linarith+
    then show ?thesis
      unfolding evaluate_set_command_def assms(1) assms(2)
      by (simp add: nth rest cong: Option.bind_cong sum.case_cong prod.case_cong Value.case_cong option.case_cong if_cong)
  qed
qed

lemma evaluate_cmake_minimum_required_cong [fundef_cong]:
  assumes "args = args'" and "ctx = ctx'" and "\<And>n c. n \<in> set args' \<Longrightarrow> ev n c = ev' n c"
  shows "evaluate_cmake_minimum_required h ev args ctx
         = evaluate_cmake_minimum_required h ev' args' ctx'"
proof -
  have nth: "ev (args' ! i) c = ev' (args' ! i) c" if "i < length args'" for i c
    using assms(3) that by simp
  have elem: "ev arg c = ev' arg c" if "(i, arg) \<in> set (enumerate 0 (butlast args'))" for i arg c
  proof -
    from that have "arg \<in> set (butlast args')"
      by (auto simp: in_set_enumerate_eq)
    then show ?thesis
      using assms(3) by (auto dest: in_set_butlastD)
  qed
  show ?thesis
    unfolding evaluate_cmake_minimum_required_def assms(1) assms(2)
    by (auto simp: nth elem intro!: Option.bind_cong for_each_cong arg_cong2[where f=Option.bind]
        split: prod.splits)
qed

lemma evaluate_option_command_cong [fundef_cong]:
  assumes "args = args'" and "ctx = ctx'" and "\<And>n c. n \<in> set args' \<Longrightarrow> ev n c = ev' n c"
  shows "evaluate_option_command h ev args ctx = evaluate_option_command h ev' args' ctx'"
proof -
  have nth: "ev (args' ! i) c = ev' (args' ! i) c" if "i < length args'" for i c
    using assms(3) that by simp
  show ?thesis
  proof (cases "length args' < 2")
    case True
    then show ?thesis
      by (simp add: evaluate_option_command_def assms(1,2))
  next
    case False
    then have "0 < length args'" and "length args' - 1 < length args'"
      by linarith+
    then show ?thesis
      unfolding evaluate_option_command_def assms(1) assms(2)
      by (simp add: nth cong: Option.bind_cong sum.case_cong prod.case_cong Value.case_cong option.case_cong if_cong)
  qed
qed

lemma evaluate_project_command_cong [fundef_cong]:
  assumes "args = args'" and "ctx = ctx'" and "\<And>n c. n \<in> set args' \<Longrightarrow> ev n c = ev' n c"
  shows "evaluate_project_command h ev args ctx = evaluate_project_command h ev' args' ctx'"
proof -
  have nth: "ev (args' ! i) c = ev' (args' ! i) c" if "i < length args'" for i c
    using assms(3) that by simp
  show ?thesis
  proof (cases "args' = []")
    case True
    then show ?thesis
      by (simp add: evaluate_project_command_def assms(1,2))
  next
    case False
    then have "0 < length args'"
      by simp
    then show ?thesis
      unfolding evaluate_project_command_def assms(1) assms(2)
      by (simp add: nth)
  qed
qed

lemma evaluate_add_library_command_cong [fundef_cong]:
  assumes "args = args'" and "ctx = ctx'" and "\<And>n c. n \<in> set args' \<Longrightarrow> ev n c = ev' n c"
  shows "evaluate_add_library_command h ev args ctx = evaluate_add_library_command h ev' args' ctx'"
proof -
  have nth: "ev (args' ! i) c = ev' (args' ! i) c" if "i < length args'" for i c
    using assms(3) that by simp
  have rest: "collect_sources h ev (drop k args') c = collect_sources h ev' (drop k args') c" for k c
    by (rule collect_sources_cong) (auto dest: in_set_dropD intro: assms(3))
  show ?thesis
  proof (cases "args' = []")
    case True
    then show ?thesis
      by (simp add: evaluate_add_library_command_def assms(1,2))
  next
    case False
    then have "0 < length args'"
      by simp
    then show ?thesis
      unfolding evaluate_add_library_command_def assms(1) assms(2)
      by (simp add: nth rest cong: Option.bind_cong sum.case_cong prod.case_cong Value.case_cong option.case_cong if_cong)
  qed
qed

lemma evaluate_add_executable_command_cong [fundef_cong]:
  assumes "args = args'" and "ctx = ctx'" and "\<And>n c. n \<in> set args' \<Longrightarrow> ev n c = ev' n c"
  shows "evaluate_add_executable_command h ev args ctx
         = evaluate_add_executable_command h ev' args' ctx'"
proof -
  have nth: "ev (args' ! i) c = ev' (args' ! i) c" if "i < length args'" for i c
    using assms(3) that by simp
  have rest: "collect_sources h ev (drop k args') c = collect_sources h ev' (drop k args') c" for k c
    by (rule collect_sources_cong) (auto dest: in_set_dropD intro: assms(3))
  show ?thesis
  proof (cases "args' = []")
    case True
    then show ?thesis
      by (simp add: evaluate_add_executable_command_def assms(1,2))
  next
    case False
    then have "0 < length args'"
      by simp
    then show ?thesis
      unfolding evaluate_add_executable_command_def assms(1) assms(2)
      by (simp add: nth rest cong: Option.bind_cong sum.case_cong prod.case_cong Value.case_cong option.case_cong if_cong)
  qed
qed

lemma evaluate_target_property_command_cong [fundef_cong]:
  assumes "args = args'" and "ctx = ctx'" and "\<And>n c. n \<in> set args' \<Longrightarrow> ev n c = ev' n c"
  shows "evaluate_target_property_command msg push h ev args ctx
         = evaluate_target_property_command msg push h ev' args' ctx'"
proof -
  have nth: "ev (args' ! i) c = ev' (args' ! i) c" if "i < length args'" for i c
    using assms(3) that by simp
  have rest: "for_each (\<lambda>arg c. ev arg c \<bind> f) (drop k args') c
              = for_each (\<lambda>arg c. ev' arg c \<bind> f) (drop k args') c" for f k c
    by (rule for_each_cong) (auto dest: in_set_dropD simp: assms(3))
  show ?thesis
  proof (cases "length args' < 2")
    case True
    then show ?thesis
      by (simp add: evaluate_target_property_command_def assms(1,2))
  next
    case False
    then have "0 < length args'"
      by linarith
    then show ?thesis
      unfolding evaluate_target_property_command_def assms(1) assms(2)
      by (simp add: nth rest cong: Option.bind_cong sum.case_cong prod.case_cong Value.case_cong option.case_cong if_cong)
  qed
qed

lemma evaluate_target_include_directories_command_cong [fundef_cong]:
  "args = args' \<Longrightarrow> ctx = ctx' \<Longrightarrow> (\<And>n c. n \<in> set args' \<Longrightarrow> ev n c = ev' n c)
   \<Longrightarrow> evaluate_target_include_directories_command h ev args ctx
       = evaluate_target_include_directories_command h ev' args' ctx'"
  unfolding evaluate_target_include_directories_command_def
  by (rule evaluate_target_property_command_cong)

lemma evaluate_target_link_libraries_command_cong [fundef_cong]:
  "args = args' \<Longrightarrow> ctx = ctx' \<Longrightarrow> (\<And>n c. n \<in> set args' \<Longrightarrow> ev n c = ev' n c)
   \<Longrightarrow> evaluate_target_link_libraries_command h ev args ctx
       = evaluate_target_link_libraries_command h ev' args' ctx'"
  unfolding evaluate_target_link_libraries_command_def
  by (rule evaluate_target_property_command_cong)

lemma evaluate_target_compile_definitions_command_cong [fundef_cong]:
  "args = args' \<Longrightarrow> ctx = ctx' \<Longrightarrow> (\<And>n c. n \<in> set args' \<Longrightarrow> ev n c = ev' n c)
   \<Longrightarrow> evaluate_target_compile_definitions_command h ev args ctx
       = evaluate_target_compile_definitions_command h ev' args' ctx'"
  unfolding evaluate_target_compile_definitions_command_def
  by (rule evaluate_target_property_command_cong)

lemma evaluate_condition_cong [fundef_cong]:
  "cond = cond' \<Longrightarrow> ctx = ctx' \<Longrightarrow> (\<And>c. ev cond' c = ev' cond' c)
   \<Longrightarrow> evaluate_condition ev cond ctx = evaluate_condition ev' cond' ctx'"
  by (simp add: evaluate_condition_def)

lemma elseif_walk_cong [fundef_cong]:
  assumes "branches = branches'" and "ctx = ctx'"
    and "\<And>n c. n \<in> set branches' \<Longrightarrow> ev n c = ev' n c"
    and "\<And>cond c. ElseIfStatement cond \<in> set branches' \<Longrightarrow> ev cond c = ev' cond c"
  shows "elseif_walk ev branches ctx = elseif_walk ev' branches' ctx'"
proof -
  have "elseif_walk ev bs c = elseif_walk ev' bs c" if "set bs \<subseteq> set branches'" for bs c
    using that
  proof (induction bs arbitrary: c rule: length_induct)
    case (1 bs)
    show ?case
    proof (cases bs)
      case Nil
      then show ?thesis by simp
    next
      case (Cons n rest)
      have rest_sub: "set rest \<subseteq> set branches'"
        using "1.prems" Cons by auto
      show ?thesis
      proof (cases "is_ElseIfStatement n")
        case False
        then have "elseif_walk ev (n # rest) c = elseif_walk ev rest c"
          and "elseif_walk ev' (n # rest) c = elseif_walk ev' rest c"
          by (cases n; simp)+
        moreover have "elseif_walk ev rest c = elseif_walk ev' rest c"
          using "1.IH" rest_sub Cons by simp
        ultimately show ?thesis
          using Cons by simp
      next
        case True
        then obtain cond where n: "n = ElseIfStatement cond"
          by (cases n) auto
        have "ElseIfStatement cond \<in> set branches'"
          using "1.prems" Cons n by auto
        then have cond_eq: "evaluate_condition ev cond x = evaluate_condition ev' cond x" for x
          using assms(4) by (intro evaluate_condition_cong) auto
        have body_eq: "evaluate_statements ev (takeWhile (\<lambda>b. \<not> is_ElseIfStatement b) rest) x
             = evaluate_statements ev' (takeWhile (\<lambda>b. \<not> is_ElseIfStatement b) rest) x" for x
          using rest_sub assms(3) by (intro evaluate_statements_cong) (auto dest!: set_takeWhileD)
        have sub: "set (dropWhile (\<lambda>b. \<not> is_ElseIfStatement b) rest) \<subseteq> set branches'"
          using rest_sub set_dropWhileD by fastforce
        have len: "length (dropWhile (\<lambda>b. \<not> is_ElseIfStatement b) rest) < length bs"
          using Cons by (simp add: less_Suc_eq_le length_dropWhile_le)
        have walk_eq: "elseif_walk ev (dropWhile (\<lambda>b. \<not> is_ElseIfStatement b) rest) x
             = elseif_walk ev' (dropWhile (\<lambda>b. \<not> is_ElseIfStatement b) rest) x" for x
          using "1.IH" len sub by simp
        show ?thesis
          unfolding Cons n by (simp add: cond_eq body_eq walk_eq cong: if_cong)
      qed
    qed
  qed
  then show ?thesis
    using assms(1,2) by simp
qed

lemma visit_IfStatement_cong [fundef_cong]:
  assumes "cond = cond'" and "then_branch = then_branch'" and "elseif_branches = elseif_branches'"
    and "else_branch = else_branch'" and "ctx = ctx'"
    and "\<And>c. ev cond' c = ev' cond' c"
    and "\<And>n c. n \<in> set then_branch' \<Longrightarrow> ev n c = ev' n c"
    and "\<And>n c. n \<in> set elseif_branches' \<Longrightarrow> ev n c = ev' n c"
    and "\<And>co c. ElseIfStatement co \<in> set elseif_branches' \<Longrightarrow> ev co c = ev' co c"
    and "\<And>n c. n \<in> set else_branch' \<Longrightarrow> ev n c = ev' n c"
  shows "visit_IfStatement ev cond then_branch elseif_branches else_branch ctx
         = visit_IfStatement ev' cond' then_branch' elseif_branches' else_branch' ctx'"
proof -
  have c: "evaluate_condition ev cond' x = evaluate_condition ev' cond' x" for x
    by (rule evaluate_condition_cong) (auto simp: assms(6))
  have t: "evaluate_statements ev then_branch' x = evaluate_statements ev' then_branch' x" for x
    by (rule evaluate_statements_cong) (auto simp: assms(7))
  have e: "evaluate_statements ev else_branch' x = evaluate_statements ev' else_branch' x" for x
    by (rule evaluate_statements_cong) (auto simp: assms(10))
  have w: "elseif_walk ev elseif_branches' x = elseif_walk ev' elseif_branches' x" for x
    by (rule elseif_walk_cong) (auto simp: assms(8) assms(9))
  show ?thesis
    unfolding visit_IfStatement_def assms(1-5)
    by (simp add: c t e w cong: Option.bind_cong sum.case_cong prod.case_cong bool.case_cong if_cong)
qed

subsection \<open>\<open>CMakeEvaluator::evaluate\<close> and the \<open>visit\<close> methods\<close>

function evaluate :: "Host \<Rightarrow> ASTNode \<Rightarrow> EvaluationContext \<Rightarrow> (EvalResult \<times> EvaluationContext) option" where
  "evaluate h (StringLiteral v quoted) ctx =
     (case interpolate_string h ctx v of
        None \<Rightarrow> None
      | Some (Inr interpolated) \<Rightarrow>
          Some (Inr \<lparr>val = VString interpolated, confidence = Certain\<rparr>, ctx)
      | Some (Inl e) \<Rightarrow> Some (Inr \<lparr>val = VString v, confidence = Uncertain\<rparr>, ctx))"
| "evaluate h (NumberLiteral txt n) ctx =
     Some (Inr \<lparr>val = VNumber (as_float n), confidence = Certain\<rparr>, ctx)"
| "evaluate h (BooleanLiteral b original_text) ctx =
     Some (Inr \<lparr>val = VBool b, confidence = Certain\<rparr>, ctx)"
| "evaluate h (Variable var_name ty) ctx =
     (case get_variable ctx var_name of
        Some v \<Rightarrow> Some (Inr v, ctx)
      | None \<Rightarrow> Some (Inr \<lparr>val = VString (''${'' @ var_name @ ''}''), confidence = Unknown\<rparr>, ctx))"
| "evaluate h (Identifier nm) ctx =
     Some (Inr \<lparr>val = VString nm, confidence = Certain\<rparr>, ctx)"
| "evaluate h (CommandCall nm args) ctx =
     (if nm = ''set'' then evaluate_set_command h (evaluate h) args ctx
      else if nm = ''if'' then evaluate_if_command args ctx
      else if nm = ''cmake_minimum_required''
        then evaluate_cmake_minimum_required h (evaluate h) args ctx
      else if nm = ''option'' then evaluate_option_command h (evaluate h) args ctx
      else if nm = ''project'' then evaluate_project_command h (evaluate h) args ctx
      else if nm = ''message'' then evaluate_message_command args ctx
      else if nm = ''add_library'' then evaluate_add_library_command h (evaluate h) args ctx
      else if nm = ''add_executable'' then evaluate_add_executable_command h (evaluate h) args ctx
      else if nm = ''target_include_directories''
        then evaluate_target_include_directories_command h (evaluate h) args ctx
      else if nm = ''target_link_libraries''
        then evaluate_target_link_libraries_command h (evaluate h) args ctx
      else if nm = ''target_compile_definitions''
        then evaluate_target_compile_definitions_command h (evaluate h) args ctx
      else Some (empty_result Unknown, ctx))"
| "evaluate h (FunctionDef nm params body) ctx = Some (empty_result Unknown, ctx)"
| "evaluate h (MacroDef nm params body) ctx = Some (empty_result Unknown, ctx)"
| "evaluate h (IfStatement cond then_branch elseif_branches else_branch) ctx =
     visit_IfStatement (evaluate h) cond then_branch elseif_branches else_branch ctx"
| "evaluate h (ListExpression elements separator) ctx = do {
     (c, list_values, min_confidence, stopped) \<leftarrow> collect_list_values h (evaluate h) elements ctx;
     Some (Inr \<lparr>val = VList list_values, confidence = min_confidence\<rparr>, c)
   }"
| "evaluate h (ElseIfStatement cond) ctx = Some (empty_result Unknown, ctx)"
| "evaluate h ElseStatement ctx = Some (empty_result Unknown, ctx)"
| "evaluate h (WhileStatement cond body) ctx = Some (empty_result Unknown, ctx)"
| "evaluate h (ForEachStatement vars loop_type items body) ctx = Some (empty_result Unknown, ctx)"
| "evaluate h (GeneratorExpression expr) ctx =
     Some (Inr \<lparr>val = VString (''${'' @ expr @ ''}''), confidence = Unknown\<rparr>, ctx)"
| "evaluate h (BracketExpression content quoted) ctx = evaluate h content ctx"
| "evaluate h (BinaryOp left op right) ctx = Some (empty_result Unknown, ctx)"
| "evaluate h (UnaryOp op operand) ctx = Some (empty_result Unknown, ctx)"
| "evaluate h (FunctionCall nm args) ctx = Some (empty_result Unknown, ctx)"
| "evaluate h (Block stmts) ctx = do {
     c \<leftarrow> evaluate_statements (evaluate h) stmts ctx;
     Some (empty_result Certain, c)
   }"
| "evaluate h (File path stmts content_hash) ctx = do {
     c \<leftarrow> evaluate_statements (evaluate h) stmts ctx;
     Some (empty_result Certain, c)
   }"
| "evaluate h (ErrorNode msg category) ctx = Some (Inl (analysis_error msg), ctx)"
| "evaluate h (CPMAddPackageNode package) ctx = Some (empty_result Unknown, ctx)"
| "evaluate h (CPMFindPackage nm ver components github tag) ctx = Some (empty_result Unknown, ctx)"
| "evaluate h (CPMUsePackageLock path) ctx = Some (empty_result Unknown, ctx)"
| "evaluate h (CPMDeclarePackage nm ver github git) ctx = Some (empty_result Unknown, ctx)"
  by pat_completeness auto
termination
proof (relation "measure (\<lambda>(h, n, ctx). size n)")
  show "wf (measure (\<lambda>(h, n, ctx). size n))"
    by simp
qed (auto simp: less_Suc_eq_le dest!: node_size_le)

subsection \<open>\<open>CMakeFileEvaluator\<close>\<close>

record ProjectAnalysis =
  project_name :: string
  project_version :: string
  analysis_targets :: "Target list"
  global_variables :: "string \<rightharpoonup> string"
  analysis_cache_variables :: "string \<rightharpoonup> string"
  warnings :: "string list"

text \<open>The constructor: a fresh context with the built-in variables.\<close>

definition CMakeFileEvaluator_new :: "Host \<Rightarrow> EvaluationContext" where
  "CMakeFileEvaluator_new h = initialize_builtin_variables (host_os h) EvaluationContext_new"

definition evaluate_file ::
  "Host \<Rightarrow> ASTNode \<Rightarrow> EvaluationContext \<Rightarrow> ((AnalysisError + unit) \<times> EvaluationContext) option" where
  "evaluate_file h file ctx = do {
     (r, c) \<leftarrow> evaluate h file ctx;
     (case r of Inl e \<Rightarrow> Some (Inl e, c) | Inr v \<Rightarrow> Some (Inr (), c))
   }"

text \<open>
  \<open>analyze\<close>. The default-constructed analysis has empty strings; the two maps are filled
  from \<open>list_variables\<close> and \<open>list_cache_variables\<close>, which enumerate exactly the names
  that \<open>get_variable\<close> and \<open>get_cache_variable\<close> find.
\<close>

definition analyze ::
  "Host \<Rightarrow> ASTNode \<Rightarrow> EvaluationContext
     \<Rightarrow> ((AnalysisError + ProjectAnalysis) \<times> EvaluationContext) option" where
  "analyze h file ctx = do {
     (eval_result, c) \<leftarrow> evaluate_file h file ctx;
     (case eval_result of
        Inl e \<Rightarrow> Some (Inl e, c)
      | Inr u \<Rightarrow>
          Some (Inr \<lparr>project_name =
                       (case get_variable c ''PROJECT_NAME'' of
                          Some v \<Rightarrow> to_string h (val v) | None \<Rightarrow> []),
                     project_version =
                       (case get_variable c ''PROJECT_VERSION'' of
                          Some v \<Rightarrow> to_string h (val v) | None \<Rightarrow> []),
                     analysis_targets = targets c,
                     global_variables =
                       (\<lambda>var_name. map_option (\<lambda>v. to_string h (val v)) (get_variable c var_name)),
                     analysis_cache_variables =
                       (\<lambda>var_name. map_option (\<lambda>v. to_string h (val v))
                                     (get_cache_variable c var_name)),
                     warnings = []\<rparr>, c))
   }"

subsection \<open>Arguments and the branch of an \<open>if\<close>\<close>

text \<open>
  The nodes that \<open>Parser::parse_argument\<close> and \<open>Parser::parse_primary_expression\<close>
  build: literals, variable references, generator expressions, and lists and bracket
  expressions of these. Command arguments and \<open>if\<close> conditions are such nodes.
\<close>

fun is_argument :: "ASTNode \<Rightarrow> bool" where
  "is_argument (StringLiteral v quoted) = True"
| "is_argument (NumberLiteral txt n) = True"
| "is_argument (BooleanLiteral b original_text) = True"
| "is_argument (Variable var_name ty) = True"
| "is_argument (GeneratorExpression expr) = True"
| "is_argument (ListExpression elements separator) = list_all is_argument elements"
| "is_argument (BracketExpression content quoted) = is_argument content"
| "is_argument n = False"

text \<open>A node whose evaluation, when it returns, returns a value and the context it was
  given.\<close>

definition pure_at :: "Host \<Rightarrow> ASTNode \<Rightarrow> bool" where
  "pure_at h n = (\<forall>ctx r c. evaluate h n ctx = Some (r, c) \<longrightarrow> c = ctx \<and> (\<exists>v. r = Inr v))"

text \<open>
  The specification of \<open>if\<close>: the then-branch if the condition is true; else the body of
  the first \<open>ElseIfStatement\<close> whose condition is true; else the else-branch. The
  conditions are read in the given context; \<open>first_true_elseif\<close> walks the list as
  \<open>elseif_walk\<close> does and only selects.
\<close>

function first_true_elseif ::
  "Evaluator \<Rightarrow> ASTNode list \<Rightarrow> EvaluationContext \<Rightarrow> ASTNode list option option" where
  "first_true_elseif ev [] ctx = Some None"
| "first_true_elseif ev (n # rest) ctx =
     (case n of
        ElseIfStatement cond \<Rightarrow> do {
          (elseif_cond, c1) \<leftarrow> evaluate_condition ev cond ctx;
          if elseif_cond = Inr True
          then Some (Some (takeWhile (\<lambda>b. \<not> is_ElseIfStatement b) rest))
          else first_true_elseif ev (dropWhile (\<lambda>b. \<not> is_ElseIfStatement b) rest) ctx
        }
      | _ \<Rightarrow> first_true_elseif ev rest ctx)"
  by pat_completeness auto
termination
  by (relation "measure (\<lambda>(ev, branches, ctx). length branches)")
     (auto simp: less_Suc_eq_le length_dropWhile_le)

definition taken_branch ::
  "Evaluator \<Rightarrow> ASTNode \<Rightarrow> ASTNode list \<Rightarrow> ASTNode list \<Rightarrow> ASTNode list
     \<Rightarrow> EvaluationContext \<Rightarrow> ASTNode list option" where
  "taken_branch ev cond then_branch elseif_branches else_branch ctx = do {
     (cond_result, c1) \<leftarrow> evaluate_condition ev cond ctx;
     (case cond_result of
        Inr True \<Rightarrow> Some then_branch
      | Inr False \<Rightarrow> do {
          body \<leftarrow> first_true_elseif ev elseif_branches ctx;
          (case body of Some stmts \<Rightarrow> Some stmts | None \<Rightarrow> Some else_branch)
        }
      | Inl e \<Rightarrow> Some [])
   }"

subsection \<open>Example inputs\<close>

text \<open>A host for closed examples; none of them formats a number.\<close>

definition example_host :: Host where
  "example_host = \<lparr>double_to_string = (\<lambda>d. ''0''), current_path = ''/project'', host_os = OtherUnix\<rparr>"

text \<open>
  \<open>set(var word)\<close> with its two arguments, each an unquoted string literal. The parser
  builds this tree when a Newline token stands between the two words. When only blanks
  stand between them it builds \<open>set_command_joined\<close>, the command with the one argument
  \<open>varword\<close>: \<open>Lexer::next_token\<close> skips blanks before every token and so emits no
  Whitespace token, and \<open>parse_unquoted_argument\<close> appends the text of every token up to
  the next Whitespace, Newline, RightParen, Semicolon or Eof token.
\<close>

definition set_command :: "string \<Rightarrow> string \<Rightarrow> ASTNode" where
  "set_command var_name word =
     CommandCall ''set'' [StringLiteral var_name False, StringLiteral word False]"

definition set_command_joined :: "string \<Rightarrow> string \<Rightarrow> ASTNode" where
  "set_command_joined var_name word =
     CommandCall ''set'' [StringLiteral (var_name @ word) False]"

text \<open>
  A file with the one command \<open>project(simple-library VERSION 1.0.0)\<close>. In
  \<open>simple_library_file\<close> the command has its three arguments, none a boolean keyword or a
  number, hence three unquoted string literals; in \<open>simple_library_joined\<close> it has the
  three words joined into one argument, as for \<open>set_command_joined\<close>.
\<close>

definition simple_library_file :: ASTNode where
  "simple_library_file =
     File ''CMakeLists.txt''
       [CommandCall ''project''
          [StringLiteral ''simple-library'' False, StringLiteral ''VERSION'' False,
           StringLiteral ''1.0.0'' False]]
       None"

definition simple_library_joined :: ASTNode where
  "simple_library_joined =
     File ''CMakeLists.txt''
       [CommandCall ''project'' [StringLiteral ''simple-libraryVERSION1.0.0'' False]]
       None"

text \<open>
  \<open>if(WIN32) set(LIB_TYPE SHARED) else() set(LIB_TYPE STATIC) endif()\<close>. The condition is
  the identifier token \<open>WIN32\<close>, which \<open>parse_primary_expression\<close> hands to
  \<open>parse_unquoted_argument\<close>: neither a boolean keyword nor a number, it becomes an
  unquoted string literal. The two \<open>set\<close> commands have their two arguments in
  \<open>platform_branching\<close> and the joined one in \<open>platform_branching_joined\<close>.
\<close>

definition platform_branching :: ASTNode where
  "platform_branching =
     IfStatement (StringLiteral ''WIN32'' False)
       [set_command ''LIB_TYPE'' ''SHARED'']
       []
       [set_command ''LIB_TYPE'' ''STATIC'']"

definition platform_branching_joined :: ASTNode where
  "platform_branching_joined =
     IfStatement (StringLiteral ''WIN32'' False)
       [set_command_joined ''LIB_TYPE'' ''SHARED'']
       []
       [set_command_joined ''LIB_TYPE'' ''STATIC'']"

text \<open>A context with the one target \<open>app\<close>.\<close>

definition app_context :: EvaluationContext where
  "app_context =
     add_target (Target_default\<lparr>Target.name := ''app'', target_type := ExecutableTarget,
                   sources := [''main.cpp'']\<rparr>)
       EvaluationContext_new"

text \<open>An \<open>if\<close> with all three kinds of branch.\<close>

definition three_way_if :: "ASTNode \<Rightarrow> ASTNode" where
  "three_way_if cond =
     IfStatement cond
       [set_command ''A'' ''x'']
       [ElseIfStatement (BooleanLiteral True ''ON''), set_command ''B'' ''y'']
       [set_command ''C'' ''z'']"

section \<open>Generator: target names and rule templates\<close>

subsection \<open>\<open>TargetMapper::normalize_target_name\<close> (target_mapper.cpp)\<close>

text \<open>
  The loop overwrites every byte that is neither alphanumeric nor \<open>_\<close> nor \<open>-\<close> by
  \<open>_\<close>; a non-empty result that starts with a digit is prefixed with \<open>lib_\<close>.
\<close>

definition normalize_target_name :: "string \<Rightarrow> string" where
  "normalize_target_name cmake_name =
     (let normalized =
            map (\<lambda>c. if \<not> isalnum c \<and> c \<noteq> CHR ''_'' \<and> c \<noteq> CHR ''-'' then CHR ''_'' else c)
              cmake_name
      in if normalized \<noteq> [] \<and> isdigit (hd normalized) then ''lib_'' @ normalized
         else normalized)"

text \<open>The character set \<open>[A-Za-z0-9_-]\<close> of the specification, written out.\<close>

definition name_charset :: "char set" where
  "name_charset =
     set (''ABCDEFGHIJKLMNOPQRSTUVWXYZ'' @ ''abcdefghijklmnopqrstuvwxyz'' @ ''0123456789'' @ ''_-'')"

subsection \<open>\<open>CxxLibraryTemplate::generate\<close> (rule_templates.cpp)\<close>

datatype Buck2RuleType =
  CxxLibrary | CxxBinary | CxxTest | FileGroup | PrebuiltCxxLibrary | HttpArchive | UnknownRule

record SelectClause =
  condition :: string
  clause_value :: string

record PlatformSelect =
  clauses :: "SelectClause list"
  default_value :: "string option"

text \<open>
  \<open>properties\<close> is a \<open>std::map\<close>; the template only iterates over it, so it is modelled
  by the sequence of its entries in iteration order (ascending keys).
\<close>

record MappedTarget =
  name :: string
  rule_type :: Buck2RuleType
  srcs :: "string list"
  headers :: "string list"
  deps :: "string list"
  properties :: "(string \<times> string) list"
  platform_config :: "PlatformSelect option"

definition quoted_line :: "string \<Rightarrow> string" where
  "quoted_line s = ''        '' @ dquote @ s @ dquote @ '','' @ newline"

definition headers_glob_line :: string where
  "headers_glob_line =
     ''    headers = glob(['' @ dquote @ ''**/*.h'' @ dquote @ '', '' @ dquote @ ''**/*.hpp''
       @ dquote @ '']),'' @ newline"

definition CxxLibraryTemplate_generate :: "MappedTarget \<Rightarrow> string" where
  "CxxLibraryTemplate_generate target =
     (let result = ''cxx_library('' @ newline;
          result = result @ ''    name = '' @ dquote @ MappedTarget.name target @ dquote @ '','' @ newline;
          result = (if srcs target \<noteq> []
                    then result @ ''    srcs = ['' @ newline
                           @ concat (map quoted_line (srcs target)) @ ''    ],'' @ newline
                    else result);
          result = (if headers target \<noteq> []
                    then result @ headers_glob_line
                    else result @ headers_glob_line);
          result = result @ ''    visibility = ['' @ dquote @ ''PUBLIC'' @ dquote @ ''],'' @ newline;
          result = result @ ''    header_namespace = '' @ dquote @ MappedTarget.name target @ dquote
                     @ '','' @ newline;
          result = (if deps target \<noteq> []
                    then result @ ''    deps = ['' @ newline
                           @ concat (map quoted_line (deps target)) @ ''    ],'' @ newline
                    else result);
          result = result @ concat (map (\<lambda>(key, val). ''    '' @ key @ '' = '' @ val @ '','' @ newline)
                                      (properties target))
      in result @ '')'')"

section \<open>Properties of the generator\<close>

lemma char_in_range:
  assumes "lo \<le> (of_char c :: nat)" and "(of_char c :: nat) < hi"
  shows "c \<in> set (map char_of [lo..<hi])"
proof -
  have "(of_char c :: nat) \<in> set [lo..<hi]"
    using assms by simp
  then have "char_of (of_char c :: nat) \<in> char_of ` set [lo..<hi]"
    by (rule imageI)
  then show ?thesis
    by simp
qed

lemma digit_chars: "map char_of [48..<58::nat] = ''0123456789''"
  by code_simp

lemma upper_chars: "map char_of [65..<91::nat] = ''ABCDEFGHIJKLMNOPQRSTUVWXYZ''"
  by code_simp

lemma lower_chars: "map char_of [97..<123::nat] = ''abcdefghijklmnopqrstuvwxyz''"
  by code_simp

lemma isdigit_iff: "isdigit c \<longleftrightarrow> c \<in> set ''0123456789''"
proof
  assume "isdigit c"
  then show "c \<in> set ''0123456789''"
    using char_in_range[of 48 c 58] unfolding digit_chars isdigit_def by simp
next
  assume "c \<in> set ''0123456789''"
  then show "isdigit c"
    by (auto simp: isdigit_def)
qed

lemma isalpha_iff:
  "isalpha c \<longleftrightarrow> c \<in> set (''ABCDEFGHIJKLMNOPQRSTUVWXYZ'' @ ''abcdefghijklmnopqrstuvwxyz'')"
proof
  assume "isalpha c"
  then show "c \<in> set (''ABCDEFGHIJKLMNOPQRSTUVWXYZ'' @ ''abcdefghijklmnopqrstuvwxyz'')"
    using char_in_range[of 65 c 91] char_in_range[of 97 c 123]
    unfolding upper_chars lower_chars isalpha_def
    by (simp only: set_append Un_iff) linarith
next
  assume "c \<in> set (''ABCDEFGHIJKLMNOPQRSTUVWXYZ'' @ ''abcdefghijklmnopqrstuvwxyz'')"
  then show "isalpha c"
    by (auto simp: isalpha_def)
qed

lemma name_charset_iff: "c \<in> name_charset \<longleftrightarrow> isalnum c \<or> c = CHR ''_'' \<or> c = CHR ''-''"
  unfolding name_charset_def isalnum_def isalpha_iff isdigit_iff
  by (simp only: set_append Un_iff) auto

lemma name_charset_not_digit: "\<not> isdigit CHR ''l''"
  by (simp add: isdigit_def)

text \<open>
  C8. \<open>normalize_target_name\<close> is idempotent; every character of its output lies in
  \<open>[A-Za-z0-9_-]\<close>; and a (non-empty) output never starts with a digit.
\<close>

theorem normalize_target_name_idempotent_charset:
  "normalize_target_name (normalize_target_name s) = normalize_target_name s
   \<and> set (normalize_target_name s) \<subseteq> name_charset
   \<and> (normalize_target_name s \<noteq> [] \<longrightarrow> \<not> isdigit (hd (normalize_target_name s)))"
proof -
  define f where "f = (\<lambda>c. if \<not> isalnum c \<and> c \<noteq> CHR ''_'' \<and> c \<noteq> CHR ''-'' then CHR ''_'' else c)"
  have f_in: "f c \<in> name_charset" for c
    by (simp add: f_def name_charset_iff)
  have f_id: "c \<in> name_charset \<Longrightarrow> f c = c" for c
    by (auto simp: f_def name_charset_iff)
  have norm: "normalize_target_name t =
      (if map f t \<noteq> [] \<and> isdigit (hd (map f t)) then ''lib_'' @ map f t else map f t)" for t
    by (simp add: normalize_target_name_def f_def Let_def)
  have lib_in: "set ''lib_'' \<subseteq> name_charset"
    by (simp add: name_charset_def)
  have charset: "set (normalize_target_name t) \<subseteq> name_charset" for t
    using lib_in f_in by (auto simp: norm)
  have nodigit: "normalize_target_name t \<noteq> [] \<longrightarrow> \<not> isdigit (hd (normalize_target_name t))" for t
    by (simp add: norm name_charset_not_digit)
  have fixed: "map f (normalize_target_name s) = normalize_target_name s"
    using charset[of s] f_id by (simp add: map_idI subset_iff)
  have "normalize_target_name (normalize_target_name s) = normalize_target_name s"
    using nodigit[of s] by (subst norm) (auto simp add: fixed)
  then show ?thesis
    using charset nodigit by blast
qed

theorem normalize_target_name_witness:
  "normalize_target_name ''3rd party.lib'' = ''lib_3rd_party_lib''
   \<and> normalize_target_name ''lib_3rd_party_lib'' = ''lib_3rd_party_lib''
   \<and> set ''lib_3rd_party_lib'' \<subseteq> name_charset
   \<and> \<not> isdigit (hd ''lib_3rd_party_lib'')"
proof -
  have n: "normalize_target_name ''3rd party.lib'' = ''lib_3rd_party_lib''"
    by (simp add: normalize_target_name_def isalnum_def isalpha_def isdigit_def)
  show ?thesis
    using normalize_target_name_idempotent_charset[of "''3rd party.lib''"]
    unfolding n by simp
qed

text \<open>
  C9. The text rendered by the \<open>cxx_library\<close> template always contains the attribute line
  \<open>headers = glob(["**/*.h", "**/*.hpp"])\<close>, and the text does not depend on the target's
  header list at all: whatever file names the list holds, none is written for its sake.
\<close>

theorem CxxLibraryTemplate_generate_headers_glob:
  "sublist headers_glob_line (CxxLibraryTemplate_generate target)
   \<and> CxxLibraryTemplate_generate (target\<lparr>headers := hs\<rparr>) = CxxLibraryTemplate_generate target
   \<and> sublist headers_glob_line (CxxLibraryTemplate_generate (target\<lparr>headers := []\<rparr>))"
proof -
  have indep: "CxxLibraryTemplate_generate (t\<lparr>headers := xs\<rparr>) = CxxLibraryTemplate_generate t"
    for t :: MappedTarget and xs
    by (simp add: CxxLibraryTemplate_generate_def Let_def)
  have sub: "sublist headers_glob_line (CxxLibraryTemplate_generate t)" for t :: MappedTarget
  proof -
    define before where "before =
      ''cxx_library('' @ newline @ ''    name = '' @ dquote @ MappedTarget.name t @ dquote @ '','' @ newline
        @ (if srcs t \<noteq> [] then ''    srcs = ['' @ newline @ concat (map quoted_line (srcs t))
              @ ''    ],'' @ newline else [])"
    define after where "after =
      ''    visibility = ['' @ dquote @ ''PUBLIC'' @ dquote @ ''],'' @ newline
        @ ''    header_namespace = '' @ dquote @ MappedTarget.name t @ dquote @ '','' @ newline
        @ (if deps t \<noteq> [] then ''    deps = ['' @ newline @ concat (map quoted_line (deps t))
              @ ''    ],'' @ newline else [])
        @ concat (map (\<lambda>(key, val). ''    '' @ key @ '' = '' @ val @ '','' @ newline) (properties t))
        @ '')''"
    have "CxxLibraryTemplate_generate t = before @ headers_glob_line @ after"
      by (simp add: CxxLibraryTemplate_generate_def Let_def before_def after_def)
    then show ?thesis
      by (simp add: sublist_def) blast
  qed
  show ?thesis
    using indep sub by simp
qed

section \<open>Properties of the CPM parser\<close>

text \<open>
  C3. The shorthand \<open>CPMAddPackage("gh:fmtlib/fmt@10.0.0")\<close> has a single quoted
  argument that matches the GitHub shorthand expression, so it is handed to
  \<open>parse_cpm_add_package_shorthand\<close>. The expression consumes the \<open>@\<close> as the separator
  of its third group; \<open>parse_version_string\<close> receives \<open>10.0.0\<close> and, finding no leading
  \<open>@\<close>, leaves the exact flag false. Name, source kind, source and version string are as
  the claim says; the exact flag is not.
\<close>

theorem parse_cpm_add_package_shorthand_fmt:
  "is_github_shorthand ''gh:fmtlib/fmt@10.0.0''
   \<and> parse_cpm_add_package_shorthand ''gh:fmtlib/fmt@10.0.0'' =
       Inr \<lparr>package_name = ''fmt'', source_type = Some GitHub, source = ''fmtlib/fmt'',
            package_version = Some \<lparr>version = ''10.0.0'', exact = False, git_tag = []\<rparr>,
            package_options = [], find_package_fallback = True\<rparr>"
  by (simp add: is_github_shorthand_def parse_cpm_add_package_shorthand_def
      parse_github_shorthand_def match_github_shorthand_def match_owner_repo_def
      not_separator_def dot_plus_to_end_def regex_dot_def parse_version_string_def
      match_version_exact_def match_version_min_def CPMVersion_default_def
      CPMAddPackage_new_def set_source_def set_version_def Let_def)

section \<open>Properties of panic-mode recovery\<close>

text \<open>
  C7. \<open>synchronize\<close> is claimed to stop at an identifier that is one of eleven command
  names or that begins with \<open>target_\<close> or \<open>find_\<close>. The source compares the name with the
  strings \<open>target_\<close> and \<open>find_\<close> by equality. After a stray \<open>)\<close>, the tokens of
  \<open>target_link_libraries(app fmt)\<close> on the same line are all skipped: the scan ends at the
  end of the input (index 6), not at the command name (index 1).
\<close>

theorem synchronize_skips_target_command:
  "current_index
     (synchronize
        \<lparr>token_buffer =
           [\<lparr>token_type = RightParen, token_value = NoValue, raw_text = '')''\<rparr>,
            \<lparr>token_type = TokenType.Identifier, token_value = StringValue ''target_link_libraries'',
              raw_text = ''target_link_libraries''\<rparr>,
            \<lparr>token_type = LeftParen, token_value = NoValue, raw_text = ''(''\<rparr>,
            \<lparr>token_type = TokenType.Identifier, token_value = StringValue ''app'', raw_text = ''app''\<rparr>,
            \<lparr>token_type = TokenType.Identifier, token_value = StringValue ''fmt'', raw_text = ''fmt''\<rparr>,
            \<lparr>token_type = RightParen, token_value = NoValue, raw_text = '')''\<rparr>,
            eof_token],
         current_index = 0, panic_mode = True\<rparr>) = 6
   \<and> is_statement_starter_spec ''target_link_libraries''
   \<and> \<not> is_statement_start ''target_link_libraries''"
  by (simp add: synchronize_def synchronize_loop.simps check_def current_def token_at_def
      advance_def is_statement_start_def is_statement_starter_spec_def starts_with_def
      eof_token_def)

section \<open>Properties of the evaluator\<close>

subsection \<open>Plain literals and the built-in context\<close>

lemma interpolate_no_dollar:
  "CHR ''$'' \<notin> set s \<Longrightarrow> var_pattern_search s = None"
  by (induction s) auto

lemma interpolate_string_plain:
  "CHR ''$'' \<notin> set s \<Longrightarrow> interpolate_string h ctx s = Some (Inr s)"
  by (simp add: interpolate_string_def interpolate_loop.simps interpolate_no_dollar)

lemma evaluate_plain_literal:
  "CHR ''$'' \<notin> set s \<Longrightarrow>
   evaluate h (StringLiteral s q) ctx = Some (Inr \<lparr>val = VString s, confidence = Certain\<rparr>, ctx)"
  by (simp add: interpolate_string_plain)

lemma get_variable_set_variable:
  "get_variable (set_variable nm v conf ctx) nm' =
     (if nm' = nm then Some \<lparr>val = v, confidence = conf\<rparr> else get_variable ctx nm')"
  by (cases ctx) simp

lemma builtin_no_project_version:
  "get_variable (CMakeFileEvaluator_new h) ''PROJECT_VERSION'' = None"
  by (cases "host_os h")
     (simp_all add: CMakeFileEvaluator_new_def initialize_builtin_variables_def
        EvaluationContext_new_def Let_def)

lemma builtin_no_prefix:
  "get_variable (CMakeFileEvaluator_new h) ''PREFIX'' = None
   \<and> get_cache_variable (CMakeFileEvaluator_new h) ''PREFIX'' = None"
  by (cases "host_os h")
     (simp_all add: CMakeFileEvaluator_new_def initialize_builtin_variables_def
        EvaluationContext_new_def get_cache_variable_def Let_def)

lemma evaluate_StringLiteral_Certain:
  "evaluate h (StringLiteral s q) ctx = Some (r, c)
   \<Longrightarrow> c = ctx \<and> (\<exists>v. r = Inr \<lparr>val = VString v, confidence = Certain\<rparr>)"
  by (auto simp: interpolate_string_def split: option.splits sum.splits)

subsection \<open>Evaluating an argument leaves the context as it was\<close>

lemma for_each_invariant:
  assumes "for_each body xs s = Some s'" and "P s"
    and "\<And>x u u'. x \<in> set xs \<Longrightarrow> P u \<Longrightarrow> body x u = Some u' \<Longrightarrow> P u'"
  shows "P s'"
  using assms
proof (induction xs arbitrary: s)
  case Nil
  then show ?case by simp
next
  case (Cons x xs)
  from Cons.prems(1) obtain u where u: "body x s = Some u" and rest: "for_each body xs u = Some s'"
    by (auto split: option.splits)
  have \<open>P u\<close>
    using Cons.prems(3)[of x s u] Cons.prems(2) u by simp
  show ?case
    by (rule Cons.IH[OF rest \<open>P u\<close>]) (auto intro: Cons.prems(3))
qed

lemma collect_list_values_pure:
  assumes "\<forall>n \<in> set nodes. pure_at h n"
    and "collect_list_values h (evaluate h) nodes ctx = Some (c2, l2, m2, s2)"
  shows "c2 = ctx"
proof -
  have "(\<lambda>(c, l, m, s). c = ctx) (c2, l2, m2, s2)"
  proof (rule for_each_invariant[OF assms(2)[unfolded collect_list_values_def]])
    show "(\<lambda>(c, l, m, s). c = ctx) (ctx, [], Certain, False)"
      by simp
  next
    fix x u u'
    assume "x \<in> set nodes" and "(\<lambda>(c, l, m, s). c = ctx) u"
      and "(case u of (c, list_values, min_confidence, stopped) \<Rightarrow>
              if stopped then Some (c, list_values, min_confidence, stopped)
              else do {
                (r, c') \<leftarrow> evaluate h x c;
                (case r of
                   Inl e \<Rightarrow> Some (c', list_values, Unknown, True)
                 | Inr v \<Rightarrow>
                     Some (c', list_values @ [to_string h (val v)],
                           confidence_min min_confidence (confidence v), False))
              }) = Some u'"
    then show "(\<lambda>(c, l, m, s). c = ctx) u'"
      using assms(1)
      by (auto simp: pure_at_def split: if_splits bind_splits sum.splits)
  qed
  then show ?thesis
    by simp
qed

lemma argument_pure: "is_argument n \<Longrightarrow> pure_at h n"
proof (induction n)
  case (StringLiteral v q)
  then show ?case
    using evaluate_StringLiteral_Certain by (fastforce simp: pure_at_def)
next
  case (ListExpression elements sep)
  then have elems: "\<forall>n \<in> set elements. pure_at h n"
    by (auto simp: list_all_iff)
  have "c = ctx \<and> (\<exists>v. r = Inr v)"
    if "evaluate h (ListExpression elements sep) ctx = Some (r, c)" for ctx r c
    using that collect_list_values_pure[OF elems]
    by (auto split: bind_splits)
  then show ?case
    unfolding pure_at_def by blast
next
  case (BracketExpression content quoted)
  then show ?case
    by (simp add: pure_at_def)
qed (auto simp: pure_at_def split: option.splits)

lemma argument_evaluation:
  "is_argument n \<Longrightarrow> evaluate h n ctx = Some (r, c) \<Longrightarrow> c = ctx \<and> (\<exists>v. r = Inr v)"
  using argument_pure[of n h] by (simp add: pure_at_def)

lemma get_cache_variable_set_cache_variable:
  "get_cache_variable (set_cache_variable nm v conf ctx) nm' =
     (if nm' = nm then Some \<lparr>val = v, confidence = conf\<rparr> else get_cache_variable ctx nm')"
  by (cases ctx) (simp add: get_cache_variable_def)

lemma set_cache_variable_frame:
  "variables (set_cache_variable nm v conf ctx) = variables ctx
   \<and> platform_checks (set_cache_variable nm v conf ctx) = platform_checks ctx
   \<and> targets (set_cache_variable nm v conf ctx) = targets ctx
   \<and> parent (set_cache_variable nm v conf ctx) = parent ctx
   \<and> get_variable (set_cache_variable nm v conf ctx) = get_variable ctx"
  by (cases ctx) (auto simp: fun_eq_iff)

subsection \<open>The \<open>project\<close> command and \<open>analyze\<close>\<close>

text \<open>
  C1. A file with the one command \<open>project\<close> whose first argument is
  \<open>simple-library\<close>, evaluated by a fresh \<open>CMakeFileEvaluator\<close> on any host, whatever
  arguments follow the name: \<open>PROJECT_NAME\<close> and \<open>CMAKE_PROJECT_NAME\<close> are stored as
  \<open>simple-library\<close> with Certain confidence, as claimed. \<open>PROJECT_VERSION\<close> is not
  stored: \<open>evaluate_project_command\<close> reads its first argument only, so \<open>analyze\<close>,
  which looks the variable up, leaves \<open>project_version\<close> empty. For
  \<open>project(simple-library VERSION 1.0.0)\<close> the claim says \<open>1.0.0\<close>; the version is
  empty in \<open>simple_library_file\<close>, and in \<open>simple_library_joined\<close>, where the project
  name is the joined argument as well.
\<close>

theorem analyze_simple_library_project_version:
  "(let ctx = set_variable ''CMAKE_PROJECT_NAME'' (VString ''simple-library'') Certain
               (set_variable ''PROJECT_NAME'' (VString ''simple-library'') Certain
                  (CMakeFileEvaluator_new h))
    in analyze h
         (File path [CommandCall ''project'' (StringLiteral ''simple-library'' quoted # rest)]
            content_hash)
         (CMakeFileEvaluator_new h) =
         Some (Inr \<lparr>project_name = ''simple-library'', project_version = [],
                    analysis_targets = targets ctx,
                    global_variables =
                      (\<lambda>var_name. map_option (\<lambda>v. to_string h (val v)) (get_variable ctx var_name)),
                    analysis_cache_variables =
                      (\<lambda>var_name. map_option (\<lambda>v. to_string h (val v))
                                    (get_cache_variable ctx var_name)),
                    warnings = []\<rparr>, ctx)
       \<and> get_variable ctx ''PROJECT_NAME'' = Some \<lparr>val = VString ''simple-library'', confidence = Certain\<rparr>
       \<and> get_variable ctx ''CMAKE_PROJECT_NAME'' = Some \<lparr>val = VString ''simple-library'', confidence = Certain\<rparr>
       \<and> get_variable ctx ''PROJECT_VERSION'' = None
       \<and> (\<exists>a c. analyze h simple_library_file (CMakeFileEvaluator_new h) = Some (Inr a, c)
                 \<and> project_name a = ''simple-library'' \<and> project_version a = [])
       \<and> (\<exists>a c. analyze h simple_library_joined (CMakeFileEvaluator_new h) = Some (Inr a, c)
                 \<and> project_name a = ''simple-libraryVERSION1.0.0'' \<and> project_version a = []))"
  by (simp add: analyze_def evaluate_file_def simple_library_file_def simple_library_joined_def
      evaluate_statements_def evaluate_project_command_def interpolate_string_plain
      empty_result_def Let_def get_variable_set_variable builtin_no_project_version)

subsection \<open>Platform branching\<close>

text \<open>
  C2. On a Unix host the built-in \<open>WIN32\<close> is the empty string, Certain, and falsy. The
  condition of \<open>if(WIN32)\<close> is nevertheless the string literal \<open>WIN32\<close>, which is
  evaluated to itself and is truthy; no variable is looked up. So whatever the branches
  are, the statements of the then-branch are the ones evaluated and the else-branch is not.
  In \<open>platform_branching\<close> \<open>LIB_TYPE\<close> becomes \<open>SHARED\<close> with Certain confidence, where
  the claim says \<open>STATIC\<close>; in \<open>platform_branching_joined\<close> the \<open>set\<close> of the
  then-branch is rejected for its single argument, the \<open>if\<close> drops that error, and
  \<open>LIB_TYPE\<close> stays unset.
\<close>

theorem platform_branching_takes_then_branch:
  "(let h = \<lparr>double_to_string = d, current_path = p, host_os = OtherUnix\<rparr>;
        ctx0 = CMakeFileEvaluator_new h;
        ctx1 = set_variable ''LIB_TYPE'' (VString ''SHARED'') Certain ctx0
    in get_variable ctx0 ''WIN32'' = Some \<lparr>val = VString [], confidence = Certain\<rparr>
       \<and> \<not> is_truthy (VString [])
       \<and> evaluate_condition (evaluate h) (StringLiteral ''WIN32'' False) ctx0 = Some (Inr True, ctx0)
       \<and> evaluate h (IfStatement (StringLiteral ''WIN32'' False) then_branch [] else_branch) ctx0
           = do { c \<leftarrow> evaluate_statements (evaluate h) then_branch ctx0;
                  Some (empty_result Certain, c) }
       \<and> evaluate h platform_branching ctx0 = Some (empty_result Certain, ctx1)
       \<and> get_variable ctx1 ''LIB_TYPE'' = Some \<lparr>val = VString ''SHARED'', confidence = Certain\<rparr>
       \<and> evaluate h platform_branching_joined ctx0 = Some (empty_result Certain, ctx0)
       \<and> get_variable ctx0 ''LIB_TYPE'' = None)"
proof -
  have seeded: "get_variable (CMakeFileEvaluator_new \<lparr>double_to_string = d, current_path = p, host_os = OtherUnix\<rparr>) ''WIN32''
      = Some \<lparr>val = VString [], confidence = Certain\<rparr>"
    by (simp add: CMakeFileEvaluator_new_def initialize_builtin_variables_def
        EvaluationContext_new_def Let_def)
  have unset: "get_variable (CMakeFileEvaluator_new \<lparr>double_to_string = d, current_path = p, host_os = OtherUnix\<rparr>) ''LIB_TYPE''
      = None"
    by (simp add: CMakeFileEvaluator_new_def initialize_builtin_variables_def
        EvaluationContext_new_def Let_def)
  show ?thesis
    unfolding Let_def
    by (simp add: seeded unset platform_branching_def platform_branching_joined_def
        set_command_def set_command_joined_def visit_IfStatement_def evaluate_condition_def
        evaluate_statements_def evaluate_set_command_def interpolate_string_plain
        is_certain_def ends_with_def get_variable_set_variable)
qed

subsection \<open>String literals with an unresolved reference\<close>

text \<open>
  C4. \<open>PREFIX\<close> is neither a variable nor a cache variable of the built-in context. The
  literal \<open>lib_${PREFIX}\<close> evaluates to itself, so the reference is kept, but with
  Certain confidence: \<open>interpolate_string\<close> skips a reference it cannot expand and
  never fails, so the Uncertain branch of \<open>visit(StringLiteral)\<close> is never taken
  (\<open>evaluate_StringLiteral_Certain\<close>). The claim says at most Uncertain.
\<close>

theorem unresolved_reference_is_Certain:
  "get_variable (CMakeFileEvaluator_new h) ''PREFIX'' = None
   \<and> get_cache_variable (CMakeFileEvaluator_new h) ''PREFIX'' = None
   \<and> evaluate h (StringLiteral ''lib_${PREFIX}'' False) (CMakeFileEvaluator_new h) =
       Some (Inr \<lparr>val = VString ''lib_${PREFIX}'', confidence = Certain\<rparr>, CMakeFileEvaluator_new h)"
  by (simp add: builtin_no_prefix interpolate_string_def interpolate_loop.simps
      match_var_body_def expand_variable_reference_def starts_with_def ends_with_def)

subsection \<open>The \<open>option\<close> command\<close>

text \<open>
  C6. \<open>option(NAME "desc" DEFAULT)\<close> with argument nodes for the name and the default,
  both of which evaluate: the result is the empty string with Certain confidence, and the
  context differs from the one before in one cache variable only. The variable is named by
  the string of the evaluated first argument and holds \<open>ON\<close> if the string of the evaluated
  default is one of \<open>ON\<close>, \<open>TRUE\<close>, \<open>YES\<close>, \<open>1\<close>, and \<open>OFF\<close> otherwise, with
  Uncertain confidence. The regular variables (the map and every lookup through it) and
  the targets are unchanged. The description is not evaluated.
\<close>

theorem option_command_sets_cache_variable:
  assumes "is_argument name_arg" and "is_argument default_arg"
    and "evaluate h name_arg ctx = Some (name_result, c1)"
    and "evaluate h default_arg ctx = Some (default_result, c2)"
  shows "\<exists>name_value default_value ctx'.
           name_result = Inr name_value \<and> default_result = Inr default_value
           \<and> ctx' = set_cache_variable (to_string h (val name_value))
                      (VString (if to_string h (val default_value) \<in> {''ON'', ''TRUE'', ''YES'', ''1''}
                                then ''ON'' else ''OFF''))
                      Uncertain ctx
           \<and> evaluate h (CommandCall ''option'' [name_arg, description_arg, default_arg]) ctx
               = Some (empty_result Certain, ctx')
           \<and> get_cache_variable ctx' (to_string h (val name_value))
               = Some \<lparr>val = VString (if to_string h (val default_value) \<in> {''ON'', ''TRUE'', ''YES'', ''1''}
                                      then ''ON'' else ''OFF''),
                       confidence = Uncertain\<rparr>
           \<and> variables ctx' = variables ctx
           \<and> get_variable ctx' = get_variable ctx
           \<and> targets ctx' = targets ctx"
proof -
  from argument_evaluation[OF assms(1) assms(3)] obtain nv where
    nv: "name_result = Inr nv" and c1: "c1 = ctx"
    by auto
  from argument_evaluation[OF assms(2) assms(4)] obtain dv where
    dv: "default_result = Inr dv" and c2: "c2 = ctx"
    by auto
  have run: "evaluate h (CommandCall ''option'' [name_arg, description_arg, default_arg]) ctx
      = Some (empty_result Certain,
          set_cache_variable (to_string h (val nv))
            (VString (if to_string h (val dv) \<in> {''ON'', ''TRUE'', ''YES'', ''1''}
                      then ''ON'' else ''OFF''))
            Uncertain ctx)"
    using assms(3,4) unfolding nv dv c1 c2
    by (simp add: evaluate_option_command_def Let_def)
  show ?thesis
    using nv dv run
    by (simp add: get_cache_variable_set_cache_variable set_cache_variable_frame)
qed

theorem option_command_witness:
  "evaluate example_host
     (CommandCall ''option''
        [StringLiteral ''ENABLE_TESTS'' False, StringLiteral ''Enable testing'' True,
         BooleanLiteral True ''ON''])
     (CMakeFileEvaluator_new example_host)
   = Some (empty_result Certain,
           set_cache_variable ''ENABLE_TESTS'' (VString ''ON'') Uncertain
             (CMakeFileEvaluator_new example_host))
   \<and> get_cache_variable
        (set_cache_variable ''ENABLE_TESTS'' (VString ''ON'') Uncertain
           (CMakeFileEvaluator_new example_host)) ''ENABLE_TESTS''
      = Some \<lparr>val = VString ''ON'', confidence = Uncertain\<rparr>
   \<and> get_variable
        (set_cache_variable ''ENABLE_TESTS'' (VString ''ON'') Uncertain
           (CMakeFileEvaluator_new example_host)) ''ENABLE_TESTS''
      = None"
proof -
  let ?ctx = "CMakeFileEvaluator_new example_host"
  have a1: "is_argument (StringLiteral ''ENABLE_TESTS'' False)"
    and a2: "is_argument (BooleanLiteral True ''ON'')"
    by simp_all
  have e1: "evaluate example_host (StringLiteral ''ENABLE_TESTS'' False) ?ctx
      = Some (Inr \<lparr>val = VString ''ENABLE_TESTS'', confidence = Certain\<rparr>, ?ctx)"
    by (simp add: interpolate_string_plain)
  have e2: "evaluate example_host (BooleanLiteral True ''ON'') ?ctx
      = Some (Inr \<lparr>val = VBool True, confidence = Certain\<rparr>, ?ctx)"
    by simp
  have none: "get_variable ?ctx ''ENABLE_TESTS'' = None"
    by (simp add: CMakeFileEvaluator_new_def initialize_builtin_variables_def
        EvaluationContext_new_def example_host_def Let_def)
  show ?thesis
    using option_command_sets_cache_variable[OF a1 a2 e1 e2,
        of "StringLiteral ''Enable testing'' True"] none
    by simp
qed

subsection \<open>Property setters for a target that does not exist\<close>

lemma find_target_None_iff:
  "find_target target_name ts = None \<longleftrightarrow> target_name \<notin> Target.name ` set ts"
  by (induction ts) auto

lemma target_property_command_unknown_target:
  assumes "2 \<le> length args" and "is_argument (args ! 0)"
    and "evaluate h (args ! 0) ctx = Some (name_result, c1)"
    and "\<And>nv. name_result = Inr nv \<Longrightarrow> to_string h (val nv) \<notin> Target.name ` set (targets ctx)"
  shows "evaluate_target_property_command msg push h (evaluate h) args ctx
         = Some (empty_result Certain, ctx)"
proof -
  from argument_evaluation[OF assms(2) assms(3)] obtain nv where
    nv: "name_result = Inr nv" and c1: "c1 = ctx"
    by auto
  have "find_target (to_string h (val nv)) (targets ctx) = None"
    using assms(4)[OF nv] by (simp add: find_target_None_iff)
  then show ?thesis
    using assms(1,3) unfolding nv c1
    by (simp add: evaluate_target_property_command_def)
qed

lemma target_property_command_arity:
  "length args < 2 \<Longrightarrow>
   evaluate_target_property_command msg push h ev args ctx
     = Some (Inl (AnalysisError InvalidConfiguration msg), ctx)"
  by (simp add: evaluate_target_property_command_def analysis_error_def)

text \<open>
  C10 (amended). A property setter with at least two arguments whose first argument is an
  argument node that evaluates to a name carried by none of the context's targets returns
  the empty string with Certain confidence and the context it was given; no error is
  produced. A property setter with fewer than two arguments returns an analysis error of
  category \<open>InvalidConfiguration\<close> and the context it was given, whatever its argument and
  the context are. Both hold for \<open>target_include_directories\<close>, \<open>target_link_libraries\<close>
  and \<open>target_compile_definitions\<close>.
\<close>

theorem target_property_setters_unknown_target:
  "(2 \<le> length args \<and> is_argument (args ! 0)
      \<and> evaluate h (args ! 0) ctx = Some (Inr target_name, c1)
      \<and> to_string h (val target_name) \<notin> Target.name ` set (targets ctx)
    \<longrightarrow> evaluate h (CommandCall ''target_include_directories'' args) ctx
           = Some (empty_result Certain, ctx)
         \<and> evaluate h (CommandCall ''target_link_libraries'' args) ctx
           = Some (empty_result Certain, ctx)
         \<and> evaluate h (CommandCall ''target_compile_definitions'' args) ctx
           = Some (empty_result Certain, ctx)
         \<and> empty_result Certain = Inr \<lparr>val = VString [], confidence = Certain\<rparr>)
   \<and> (length args < 2
    \<longrightarrow> evaluate h (CommandCall ''target_include_directories'' args) ctx
           = Some (Inl (AnalysisError InvalidConfiguration
                          ''target_include_directories() requires target and directories''), ctx)
         \<and> evaluate h (CommandCall ''target_link_libraries'' args) ctx
           = Some (Inl (AnalysisError InvalidConfiguration
                          ''target_link_libraries() requires target and libraries''), ctx)
         \<and> evaluate h (CommandCall ''target_compile_definitions'' args) ctx
           = Some (Inl (AnalysisError InvalidConfiguration
                          ''target_compile_definitions() requires target and definitions''), ctx))"
proof (intro conjI impI)
  assume a: "2 \<le> length args \<and> is_argument (args ! 0)
      \<and> evaluate h (args ! 0) ctx = Some (Inr target_name, c1)
      \<and> to_string h (val target_name) \<notin> Target.name ` set (targets ctx)"
  then have unknown: "evaluate_target_property_command msg push h (evaluate h) args ctx
      = Some (empty_result Certain, ctx)" for msg push
    by (intro target_property_command_unknown_target[where name_result = "Inr target_name" and ?c1.0 = c1])
       simp_all
  show "evaluate h (CommandCall ''target_include_directories'' args) ctx
           = Some (empty_result Certain, ctx)"
    by (simp add: evaluate_target_include_directories_command_def unknown)
  show "evaluate h (CommandCall ''target_link_libraries'' args) ctx
           = Some (empty_result Certain, ctx)"
    by (simp add: evaluate_target_link_libraries_command_def unknown)
  show "evaluate h (CommandCall ''target_compile_definitions'' args) ctx
           = Some (empty_result Certain, ctx)"
    by (simp add: evaluate_target_compile_definitions_command_def unknown)
  show "empty_result Certain = Inr \<lparr>val = VString [], confidence = Certain\<rparr>"
    by (simp add: empty_result_def)
next
  assume short: "length args < 2"
  show "evaluate h (CommandCall ''target_include_directories'' args) ctx
           = Some (Inl (AnalysisError InvalidConfiguration
                          ''target_include_directories() requires target and directories''), ctx)"
    by (simp add: evaluate_target_include_directories_command_def
        target_property_command_arity[OF short])
  show "evaluate h (CommandCall ''target_link_libraries'' args) ctx
           = Some (Inl (AnalysisError InvalidConfiguration
                          ''target_link_libraries() requires target and libraries''), ctx)"
    by (simp add: evaluate_target_link_libraries_command_def
        target_property_command_arity[OF short])
  show "evaluate h (CommandCall ''target_compile_definitions'' args) ctx
           = Some (Inl (AnalysisError InvalidConfiguration
                          ''target_compile_definitions() requires target and definitions''), ctx)"
    by (simp add: evaluate_target_compile_definitions_command_def
        target_property_command_arity[OF short])
qed

theorem target_property_setters_witness:
  "evaluate example_host
     (CommandCall ''target_link_libraries''
        [StringLiteral ''nosuch'' False, StringLiteral ''PRIVATE'' False, StringLiteral ''fmt'' False])
     app_context
   = Some (Inr \<lparr>val = VString [], confidence = Certain\<rparr>, app_context)
   \<and> map Target.name (targets app_context) = [''app'']
   \<and> evaluate example_host (CommandCall ''target_include_directories'' []) app_context
     = Some (Inl (AnalysisError InvalidConfiguration
                    ''target_include_directories() requires target and directories''), app_context)
   \<and> evaluate example_host
       (CommandCall ''target_compile_definitions'' [StringLiteral ''app'' False]) app_context
     = Some (Inl (AnalysisError InvalidConfiguration
                    ''target_compile_definitions() requires target and definitions''), app_context)"
proof -
  let ?args = "[StringLiteral ''nosuch'' False, StringLiteral ''PRIVATE'' False, StringLiteral ''fmt'' False]"
  have e: "evaluate example_host (?args ! 0) app_context
      = Some (Inr \<lparr>val = VString ''nosuch'', confidence = Certain\<rparr>, app_context)"
    by (simp add: interpolate_string_plain)
  have ts: "map Target.name (targets app_context) = [''app'']"
    by (simp add: app_context_def EvaluationContext_new_def Target_default_def)
  then have n: "to_string example_host (val \<lparr>val = VString ''nosuch'', confidence = Certain\<rparr>)
      \<notin> Target.name ` set (targets app_context)"
    by (simp flip: set_map)
  show ?thesis
    using target_property_setters_unknown_target[of ?args example_host app_context
          "\<lparr>val = VString ''nosuch'', confidence = Certain\<rparr>" app_context]
      target_property_setters_unknown_target[of "[]" example_host app_context]
      target_property_setters_unknown_target[of "[StringLiteral ''app'' False]" example_host app_context]
      e n ts
    by (simp add: empty_result_def)
qed

text \<open>
  With a single argument the arity guard answers first: \<open>target_link_libraries(nosuch)\<close>
  names a target that does not exist, and its evaluation is an error (of category
  \<open>InvalidConfiguration\<close>, not \<open>UnknownTarget\<close>).
\<close>

theorem target_property_setter_single_argument:
  "evaluate example_host (CommandCall ''target_link_libraries'' [StringLiteral ''nosuch'' False])
     app_context
   = Some (Inl (AnalysisError InvalidConfiguration
                  ''target_link_libraries() requires target and libraries''), app_context)
   \<and> ''nosuch'' \<notin> set (map Target.name (targets app_context))"
  by (simp add: evaluate_target_link_libraries_command_def evaluate_target_property_command_def
      analysis_error_def app_context_def EvaluationContext_new_def Target_default_def)

subsection \<open>The branches of an \<open>if\<close>\<close>

lemma evaluate_condition_argument:
  assumes "is_argument cond" and "evaluate_condition (evaluate h) cond ctx = Some (r, c)"
  shows "c = ctx"
  using assms argument_evaluation[OF assms(1)]
  by (auto simp: evaluate_condition_def split: bind_splits sum.splits)

lemma elseif_walk_taken:
  assumes "\<And>cond. ElseIfStatement cond \<in> set branches \<Longrightarrow> is_argument cond"
  shows "elseif_walk (evaluate h) branches ctx =
           do {
             body \<leftarrow> first_true_elseif (evaluate h) branches ctx;
             (case body of
                Some stmts \<Rightarrow> do {
                  c \<leftarrow> evaluate_statements (evaluate h) stmts ctx;
                  Some (True, c) }
              | None \<Rightarrow> Some (False, ctx))
           }"
  using assms
proof (induction branches rule: length_induct)
  case (1 bs)
  show ?case
  proof (cases bs)
    case Nil
    then show ?thesis by simp
  next
    case (Cons n rest)
    show ?thesis
    proof (cases "is_ElseIfStatement n")
      case False
      then have "elseif_walk (evaluate h) (n # rest) ctx = elseif_walk (evaluate h) rest ctx"
        and "first_true_elseif (evaluate h) (n # rest) ctx = first_true_elseif (evaluate h) rest ctx"
        by (cases n; simp)+
      moreover have "elseif_walk (evaluate h) rest ctx =
           do {
             body \<leftarrow> first_true_elseif (evaluate h) rest ctx;
             (case body of
                Some stmts \<Rightarrow> do {
                  c \<leftarrow> evaluate_statements (evaluate h) stmts ctx;
                  Some (True, c) }
              | None \<Rightarrow> Some (False, ctx))
           }"
        using "1.IH" "1.prems" Cons by simp
      ultimately show ?thesis
        using Cons by simp
    next
      case True
      then obtain cond where n: "n = ElseIfStatement cond"
        by (cases n) auto
      have arg: "is_argument cond"
        using "1.prems" Cons n by simp
      let ?rest' = "dropWhile (\<lambda>b. \<not> is_ElseIfStatement b) rest"
      have len: "length ?rest' < length bs"
        using Cons by (simp add: less_Suc_eq_le length_dropWhile_le)
      have sub: "ElseIfStatement co \<in> set ?rest' \<Longrightarrow> is_argument co" for co
        using "1.prems" Cons set_dropWhileD[of "ElseIfStatement co" _ rest] by auto
      have IH: "elseif_walk (evaluate h) ?rest' ctx =
           do {
             body \<leftarrow> first_true_elseif (evaluate h) ?rest' ctx;
             (case body of
                Some stmts \<Rightarrow> do {
                  c \<leftarrow> evaluate_statements (evaluate h) stmts ctx;
                  Some (True, c) }
              | None \<Rightarrow> Some (False, ctx))
           }"
        using "1.IH" len sub by blast
      show ?thesis
      proof (cases "evaluate_condition (evaluate h) cond ctx")
        case None
        then show ?thesis
          unfolding Cons n by simp
      next
        case (Some a)
        obtain r c where a: "a = (r, c)"
          by (cases a)
        have c: "c = ctx"
          using evaluate_condition_argument[OF arg] Some a by simp
        show ?thesis
          unfolding Cons n using Some a c IH by simp
      qed
    qed
  qed
qed

text \<open>
  C5. For every \<open>IfStatement\<close>: when the condition is true, the evaluation is that of the
  same statement without its elseif and else branches; when the condition is false, it is
  that of the same statement with an empty then-branch. When the condition and the elseif
  conditions are argument nodes, as the parser builds them, the evaluation selects one
  branch (\<open>taken_branch\<close>) and is the evaluation of that branch's statements, one after the
  other, from the context the \<open>if\<close> was given: nothing else changes the context.
\<close>

theorem if_statement_single_branch:
  "(evaluate_condition (evaluate h) cond ctx = Some (Inr True, c1) \<longrightarrow>
      evaluate h (IfStatement cond then_branch elseif_branches else_branch) ctx
      = evaluate h (IfStatement cond then_branch [] []) ctx)
   \<and> (evaluate_condition (evaluate h) cond ctx = Some (Inr False, c1) \<longrightarrow>
      evaluate h (IfStatement cond then_branch elseif_branches else_branch) ctx
      = evaluate h (IfStatement cond [] elseif_branches else_branch) ctx)
   \<and> (is_argument cond \<and> (\<forall>co. ElseIfStatement co \<in> set elseif_branches \<longrightarrow> is_argument co) \<longrightarrow>
      evaluate h (IfStatement cond then_branch elseif_branches else_branch) ctx
      = do {
          stmts \<leftarrow> taken_branch (evaluate h) cond then_branch elseif_branches else_branch ctx;
          c \<leftarrow> evaluate_statements (evaluate h) stmts ctx;
          Some (empty_result Certain, c)
        })"
proof (intro conjI impI)
  assume "evaluate_condition (evaluate h) cond ctx = Some (Inr True, c1)"
  then show "evaluate h (IfStatement cond then_branch elseif_branches else_branch) ctx
      = evaluate h (IfStatement cond then_branch [] []) ctx"
    by (simp add: visit_IfStatement_def)
next
  assume "evaluate_condition (evaluate h) cond ctx = Some (Inr False, c1)"
  then show "evaluate h (IfStatement cond then_branch elseif_branches else_branch) ctx
      = evaluate h (IfStatement cond [] elseif_branches else_branch) ctx"
    by (simp add: visit_IfStatement_def)
next
  assume args: "is_argument cond \<and> (\<forall>co. ElseIfStatement co \<in> set elseif_branches \<longrightarrow> is_argument co)"
  then have walk: "elseif_walk (evaluate h) elseif_branches ctx =
           do {
             body \<leftarrow> first_true_elseif (evaluate h) elseif_branches ctx;
             (case body of
                Some stmts \<Rightarrow> do {
                  c \<leftarrow> evaluate_statements (evaluate h) stmts ctx;
                  Some (True, c) }
              | None \<Rightarrow> Some (False, ctx))
           }"
    by (intro elseif_walk_taken) simp
  show "evaluate h (IfStatement cond then_branch elseif_branches else_branch) ctx
      = do {
          stmts \<leftarrow> taken_branch (evaluate h) cond then_branch elseif_branches else_branch ctx;
          c \<leftarrow> evaluate_statements (evaluate h) stmts ctx;
          Some (empty_result Certain, c)
        }"
  proof (cases "evaluate_condition (evaluate h) cond ctx")
    case None
    then show ?thesis
      by (simp add: visit_IfStatement_def taken_branch_def)
  next
    case (Some a)
    obtain r c where a: "a = (r, c)"
      by (cases a)
    have c: "c = ctx"
      using evaluate_condition_argument[of cond h ctx r c] args Some a by simp
    show ?thesis
    proof (cases r)
      case (Inl e)
      then show ?thesis
        using Some a c by (simp add: visit_IfStatement_def taken_branch_def evaluate_statements_def)
    next
      case (Inr b)
      show ?thesis
      proof (cases b)
        case True
        then show ?thesis
          using Some a c Inr by (simp add: visit_IfStatement_def taken_branch_def)
      next
        case False
        show ?thesis
        proof (cases "first_true_elseif (evaluate h) elseif_branches ctx")
          case None
          then show ?thesis
            using Some a c Inr False walk by (simp add: visit_IfStatement_def taken_branch_def)
        next
          case (Some body)
          then show ?thesis
            using \<open>evaluate_condition (evaluate h) cond ctx = Some a\<close> a c Inr False walk
            by (cases body; cases "else_branch = []")
               (auto simp: visit_IfStatement_def taken_branch_def evaluate_statements_def
                  split: bind_splits)
        qed
      qed
    qed
  qed
qed

theorem if_statement_single_branch_witness:
  "evaluate example_host (three_way_if (BooleanLiteral True ''ON'')) EvaluationContext_new
     = evaluate example_host
         (IfStatement (BooleanLiteral True ''ON'') [set_command ''A'' ''x''] [] [])
         EvaluationContext_new
   \<and> evaluate example_host (three_way_if (BooleanLiteral True ''ON'')) EvaluationContext_new
     = Some (empty_result Certain, set_variable ''A'' (VString ''x'') Certain EvaluationContext_new)
   \<and> evaluate example_host (three_way_if (BooleanLiteral False ''OFF'')) EvaluationContext_new
     = evaluate example_host
         (IfStatement (BooleanLiteral False ''OFF'') []
            [ElseIfStatement (BooleanLiteral True ''ON''), set_command ''B'' ''y'']
            [set_command ''C'' ''z''])
         EvaluationContext_new
   \<and> evaluate example_host (three_way_if (BooleanLiteral False ''OFF'')) EvaluationContext_new
     = Some (empty_result Certain, set_variable ''B'' (VString ''y'') Certain EvaluationContext_new)"
proof -
  have t: "evaluate_condition (evaluate example_host) (BooleanLiteral True ''ON'')
             EvaluationContext_new = Some (Inr True, EvaluationContext_new)"
    and f: "evaluate_condition (evaluate example_host) (BooleanLiteral False ''OFF'')
             EvaluationContext_new = Some (Inr False, EvaluationContext_new)"
    by (simp_all add: evaluate_condition_def)
  have set_eval: "evaluate example_host (set_command v w) c
      = Some (empty_result Certain, set_variable v (VString w) Certain c)"
    if "CHR ''$'' \<notin> set v" and "CHR ''$'' \<notin> set w" for v w c
    using that
    by (simp add: set_command_def evaluate_set_command_def interpolate_string_plain is_certain_def)
  have not_elseif: "\<not> is_ElseIfStatement (set_command v w)"
    and differ: "ElseIfStatement co \<noteq> set_command v w" for v w co
    by (simp_all add: set_command_def)
  show ?thesis
    using if_statement_single_branch[of example_host "BooleanLiteral True ''ON''"
        EvaluationContext_new EvaluationContext_new "[set_command ''A'' ''x'']"
        "[ElseIfStatement (BooleanLiteral True ''ON''), set_command ''B'' ''y'']"
        "[set_command ''C'' ''z'']"]
      if_statement_single_branch[of example_host "BooleanLiteral False ''OFF''"
        EvaluationContext_new EvaluationContext_new "[set_command ''A'' ''x'']"
        "[ElseIfStatement (BooleanLiteral True ''ON''), set_command ''B'' ''y'']"
        "[set_command ''C'' ''z'']"]
    unfolding three_way_if_def
    by (simp add: t f taken_branch_def visit_IfStatement_def evaluate_statements_def set_eval
        not_elseif differ)
qed

end
